theory Spec2Isabelle
  imports Main "HOL-Library.Word"
begin

section \<open>Values exchanged with the libraries\<close>

text \<open>
  The repository is a thin layer over three libraries: the Go standard library (os, tar, gzip,
  strings, fmt), the wazero WebAssembly runtime, and the embedded PostgreSQL module itself.
  None of them is part of the repository. The model below keeps the repository's own control
  flow exactly and records every library call, with its arguments and its result, in a trace.
  What a library call answers is decided by an environment (an oracle that sees the trace so
  far), so every theorem holds for every behaviour of the libraries. Every library call is
  taken to return.
\<close>

type_synonym byte = "8 word"

text \<open>
  Go errors. \<open>ExitError c\<close> is wazero's \<open>*sys.ExitError\<close> with exit code \<open>c\<close>;
  \<open>LibError\<close> is any other error value handed out by a library; \<open>Errorf f args\<close> is the
  value of \<open>fmt.Errorf(f, args...)\<close>, kept unformatted.
\<close>

datatype error = ExitError "32 word" | LibError string | Errorf string "fmt_arg list"
and fmt_arg = ArgErr error | ArgUint32 "32 word" | ArgUint64s "64 word list"
  | ArgString string | ArgByte char

text \<open>Whether a format string holds the verb \<open>%w\<close>.\<close>

fun has_verb_w :: "string \<Rightarrow> bool" where
  "has_verb_w (a # b # cs) = ((a = CHR ''%'' \<and> b = CHR ''w'') \<or> has_verb_w (b # cs))"
| "has_verb_w _ = False"

text \<open>
  \<open>errors.Unwrap\<close>: an error built by \<open>fmt.Errorf\<close> with one \<open>%w\<close> verb and one error
  operand wraps that operand; no other error of this program wraps anything.
\<close>

fun Unwrap :: "error \<Rightarrow> error option" where
  "Unwrap (Errorf f [ArgErr e]) = (if has_verb_w f then Some e else None)"
| "Unwrap _ = None"

text \<open>A Go call either returns or panics.\<close>

datatype 'a outcome = Returned 'a | Panicked

type_synonym module = nat
type_synonym runtime = nat

datatype go_context = Context nat
datatype writer = Stdout | Stderr | Writer nat
datatype runtime_config = RuntimeConfig nat

text \<open>The fields of \<open>tar.Header\<close> that the program reads.\<close>

record tar_header =
  Typeflag :: char
  Name :: string
  Linkname :: string
  Mode :: "64 word"

text \<open>What \<open>tr.Next()\<close> hands out before the end of the archive: a header or an error.\<close>

datatype tar_item = Header tar_header | NextError error

definition TypeReg :: char where "TypeReg = CHR ''0''"
definition TypeSymlink :: char where "TypeSymlink = CHR ''2''"
definition TypeDir :: char where "TypeDir = CHR ''5''"

text \<open>wazero's module configuration, as built by the \<open>With...\<close> calls.\<close>

record fs_config =
  mounts :: "(string \<times> string) list"

record module_config =
  cfg_stdout :: "writer option"
  cfg_stderr :: "writer option"
  cfg_fs :: fs_config
  cfg_args :: "string list"
  cfg_env :: "(string \<times> string) list"

definition NewFSConfig :: fs_config where
  "NewFSConfig = \<lparr>mounts = []\<rparr>"

definition WithDirMount :: "string \<Rightarrow> string \<Rightarrow> fs_config \<Rightarrow> fs_config" where
  "WithDirMount dir guestPath c = c\<lparr>mounts := mounts c @ [(dir, guestPath)]\<rparr>"

definition NewModuleConfig :: module_config where
  "NewModuleConfig = \<lparr>cfg_stdout = None, cfg_stderr = None, cfg_fs = NewFSConfig,
     cfg_args = [], cfg_env = []\<rparr>"

definition WithStdout :: "writer option \<Rightarrow> module_config \<Rightarrow> module_config" where
  "WithStdout out c = c\<lparr>cfg_stdout := out\<rparr>"

definition WithStderr :: "writer option \<Rightarrow> module_config \<Rightarrow> module_config" where
  "WithStderr out c = c\<lparr>cfg_stderr := out\<rparr>"

definition WithFSConfig :: "fs_config \<Rightarrow> module_config \<Rightarrow> module_config" where
  "WithFSConfig f c = c\<lparr>cfg_fs := f\<rparr>"

definition WithArgs :: "string list \<Rightarrow> module_config \<Rightarrow> module_config" where
  "WithArgs as c = c\<lparr>cfg_args := as\<rparr>"

definition WithEnv :: "string \<Rightarrow> string \<Rightarrow> module_config \<Rightarrow> module_config" where
  "WithEnv k v c = c\<lparr>cfg_env := cfg_env c @ [(k, v)]\<rparr>"

section \<open>The trace of library calls\<close>

text \<open>One constructor per library call of the program, carrying arguments and result.\<close>

datatype event =
    EStat string "error option"
  | EPrintln string
  | EGzipNewReader "error option"
  | EGzipClose
  | ETarNext "tar_item option"
  | EMkdirAll string "32 word" "error option"
  | ECreate string "error option"
  | ECopy string "error option"
  | ESymlink string string "error option"
  | EFileClose string
  | ERandRead nat "byte list" "error option"
  | EFileWrite string "byte list"
  | EReadFile string "byte list" "error option"
  | ENewRuntime "runtime_config option" runtime
  | EWasiInstantiate "error option"
  | EInstantiate "byte list" module_config "module option" "error option"
  | ERuntimeClose runtime
  | EMemWrite module nat "byte list" bool
  | ECall module string "byte list option" "64 word list" "error option"
  | EFprintf writer string "fmt_arg list"

text \<open>
  The environment. \<open>gzip_result\<close> and \<open>tar_stream\<close> describe the embedded archive
  \<open>pglite-wasi.tar.gz\<close> (not part of the sources): whether \<open>gzip.NewReader\<close> accepts it and
  what \<open>tr.Next()\<close> yields, call after call, until \<open>io.EOF\<close> at the end of the list. The
  other fields answer a library call from the trace so far and the call's arguments.
\<close>

record env =
  gzip_result :: "error option"
  tar_stream :: "tar_item list"
  filepath_Join :: "string \<Rightarrow> string \<Rightarrow> string"
  filepath_Dir :: "string \<Rightarrow> string"
  os_Stat :: "event list \<Rightarrow> string \<Rightarrow> error option"
  os_MkdirAll :: "event list \<Rightarrow> string \<Rightarrow> 32 word \<Rightarrow> error option"
  os_Create :: "event list \<Rightarrow> string \<Rightarrow> error option"
  io_Copy :: "event list \<Rightarrow> string \<Rightarrow> error option"
  os_Symlink :: "event list \<Rightarrow> string \<Rightarrow> string \<Rightarrow> error option"
  rand_Read :: "event list \<Rightarrow> nat \<Rightarrow> byte list \<times> error option"
  os_ReadFile :: "event list \<Rightarrow> string \<Rightarrow> byte list \<times> error option"
  wazero_NewRuntime :: "event list \<Rightarrow> runtime_config option \<Rightarrow> runtime"
  wasi_Instantiate :: "event list \<Rightarrow> runtime \<Rightarrow> error option"
  rt_Instantiate :: "event list \<Rightarrow> runtime \<Rightarrow> byte list \<Rightarrow> module_config
     \<Rightarrow> (module option \<times> error option) \<times> byte list option"
  ExportedFunction :: "module \<Rightarrow> string \<Rightarrow> bool"
  fn_Call :: "event list \<Rightarrow> module \<Rightarrow> string \<Rightarrow> byte list option
     \<Rightarrow> (64 word list \<times> error option) \<times> byte list"

text \<open>
  The world: the trace so far, and the linear memory of each instantiated module
  (\<open>None\<close> for a module that defines no memory, where \<open>Memory()\<close> is nil).
\<close>

record world =
  trace :: "event list"
  memories :: "module \<Rightarrow> byte list option"

definition emit :: "event \<Rightarrow> world \<Rightarrow> world" where
  "emit ev w = w\<lparr>trace := trace w @ [ev]\<rparr>"

text \<open>The events a run added to the trace.\<close>

definition events_since :: "world \<Rightarrow> world \<Rightarrow> event list" where
  "events_since w w' = drop (length (trace w)) (trace w')"

section \<open>wazero: memory and exported functions\<close>

text \<open>
  \<open>api.Memory.Write(offset, v)\<close>: copies \<open>v\<close> into the buffer at \<open>offset\<close> and answers true,
  or answers false and leaves the buffer alone when \<open>offset + len(v)\<close> exceeds its size.
  wazero adds the two in 64 bits, so the sum of a 32-bit offset and a length never wraps;
  natural numbers say the same.
\<close>

definition hasSize :: "byte list \<Rightarrow> nat \<Rightarrow> nat \<Rightarrow> bool" where
  "hasSize buf offset byteCount = (offset + byteCount \<le> length buf)"

definition Memory_Write :: "byte list \<Rightarrow> nat \<Rightarrow> byte list \<Rightarrow> bool \<times> byte list" where
  "Memory_Write buf offset v =
     (if \<not> hasSize buf offset (length v) then (False, buf)
      else (True, take offset buf @ v @ drop (offset + length v) buf))"

text \<open>
  \<open>mod.ExportedFunction(name).Call(ctx)\<close>. A nil module handle and a name the module does
  not export (\<open>ExportedFunction\<close> answers nil) both panic with a nil dereference. The call
  sees the module's memory and may change its contents.
\<close>

definition call_exported ::
  "env \<Rightarrow> module option \<Rightarrow> string \<Rightarrow> world \<Rightarrow> (64 word list \<times> error option) outcome \<times> world" where
  "call_exported E mo name w =
     (case mo of
        None \<Rightarrow> (Panicked, w)
      | Some m \<Rightarrow>
          if \<not> ExportedFunction E m name then (Panicked, w)
          else
            let mem = memories w m;
                res = fn_Call E (trace w) m name mem;
                w1 = (case mem of None \<Rightarrow> w
                      | Some _ \<Rightarrow> w\<lparr>memories := (memories w)(m := Some (snd res))\<rparr>)
            in (Returned (fst res), emit (ECall m name mem (fst (fst res)) (snd (fst res))) w1))"

text \<open>\<open>fmt.Fprintf(w, format, args...)\<close>; a nil writer panics.\<close>

definition Fprintf :: "writer option \<Rightarrow> string \<Rightarrow> fmt_arg list \<Rightarrow> world \<Rightarrow> unit outcome \<times> world" where
  "Fprintf wr f args w =
     (case wr of None \<Rightarrow> (Panicked, w)
      | Some out \<Rightarrow> (Returned (), emit (EFprintf out f args) w))"

section \<open>PGLite\<close>

record PGLite =
  runtime :: "runtime option"
  mod' :: "module option"
  ctx :: go_context
  stdout :: "writer option"
  stderr :: "writer option"

text \<open>\<open>[]byte(sql)\<close>: the bytes of the string.\<close>

definition bytes_of :: "string \<Rightarrow> byte list" where
  "bytes_of s = map of_char s"

text \<open>
  \<open>Query\<close>: build the C string, write it at offset 1 (the boolean answer of \<open>Write\<close> is
  dropped), call \<open>interactive_one\<close>, return its error.
\<close>

definition Query :: "env \<Rightarrow> PGLite \<Rightarrow> string \<Rightarrow> world \<Rightarrow> error option outcome \<times> world" where
  "Query E p sql w =
     (let sqlCstring = bytes_of sql @ [0] in
      case mod' p of
        None \<Rightarrow> (Panicked, w)
      | Some m \<Rightarrow>
          (case memories w m of
             None \<Rightarrow> (Panicked, w)
           | Some buf \<Rightarrow>
               let wr = Memory_Write buf 1 sqlCstring;
                   w1 = emit (EMemWrite m 1 sqlCstring (fst wr))
                          (w\<lparr>memories := (memories w)(m := Some (snd wr))\<rparr>)
               in (case call_exported E (mod' p) ''interactive_one'' w1 of
                     (Panicked, w2) \<Rightarrow> (Panicked, w2)
                   | (Returned (rv, err), w2) \<Rightarrow> (Returned err, w2))))"

text \<open>\<open>Close\<close>: closes the runtime when there is one; the error of the close is dropped.\<close>

definition Close :: "PGLite \<Rightarrow> world \<Rightarrow> world" where
  "Close p w = (case runtime p of None \<Rightarrow> w | Some r \<Rightarrow> emit (ERuntimeClose r) w)"

section \<open>setupEnv\<close>

text \<open>
  Deferred calls. Every \<open>defer\<close> of \<open>setupEnv\<close> is a \<open>Close\<close> whose result is dropped, so
  a deferred call is kept as the event it will emit; the stack has the latest \<open>defer\<close> first
  and runs in that order when the function returns.
\<close>

definition run_deferred :: "event list \<Rightarrow> world \<Rightarrow> world" where
  "run_deferred ds w = w\<lparr>trace := trace w @ ds\<rparr>"

text \<open>
  The \<open>switch header.Typeflag\<close> of the extraction loop, for one header. The answer is the
  error to return with (\<open>None\<close>: go on with the loop), the world and the defer stack.
\<close>

definition extract_entry ::
  "env \<Rightarrow> tar_header \<Rightarrow> world \<Rightarrow> event list \<Rightarrow> error option \<times> world \<times> event list" where
  "extract_entry E header w ds =
     (let dest = filepath_Join E ''./'' (Name header) in
      if Typeflag header = TypeDir then
        (let err = os_MkdirAll E (trace w) dest (ucast (Mode header));
             w1 = emit (EMkdirAll dest (ucast (Mode header)) err) w
         in (err, w1, ds))
      else if Typeflag header = TypeReg then
        (let dir = filepath_Dir E dest;
             err = os_MkdirAll E (trace w) dir (ucast (Mode header));
             w1 = emit (EMkdirAll dir (ucast (Mode header)) err) w
         in if err \<noteq> None then (err, w1, ds)
            else
              let err2 = os_Create E (trace w1) dest;
                  w2 = emit (ECreate dest err2) w1
              in if err2 \<noteq> None then (err2, w2, ds)
                 else
                   let ds' = EFileClose dest # ds;
                       err3 = io_Copy E (trace w2) dest;
                       w3 = emit (ECopy dest err3) w2
                   in (err3, w3, ds'))
      else if Typeflag header = TypeSymlink then
        (let err = os_Symlink E (trace w) (Linkname header) dest;
             w1 = emit (ESymlink (Linkname header) dest err) w
         in (err, w1, ds))
      else
        (Some (Errorf ''unknown file type in tar: %c (%s)''
                 [ArgByte (Typeflag header), ArgString (Name header)]), w, ds))"

text \<open>
  The \<open>for\<close> loop over \<open>tr.Next()\<close>. The archive is finite, so the loop is a recursion over
  what \<open>Next\<close> still has to yield; the end of the list is \<open>io.EOF\<close>.
\<close>

fun extract_loop ::
  "env \<Rightarrow> tar_item list \<Rightarrow> world \<Rightarrow> event list \<Rightarrow> error option \<times> world \<times> event list" where
  "extract_loop E [] w ds = (None, emit (ETarNext None) w, ds)"
| "extract_loop E (NextError err # rest) w ds =
     (Some err, emit (ETarNext (Some (NextError err))) w, ds)"
| "extract_loop E (Header header # rest) w ds =
     (case extract_entry E header (emit (ETarNext (Some (Header header))) w) ds of
        (Some err, w1, ds1) \<Rightarrow> (Some err, w1, ds1)
      | (None, w1, ds1) \<Rightarrow> extract_loop E rest w1 ds1)"

text \<open>Lines 140 to 188: the extraction, guarded by \<open>os.Stat\<close> of the marker file.\<close>

definition extract_if_absent ::
  "env \<Rightarrow> world \<Rightarrow> error option \<times> world \<times> event list" where
  "extract_if_absent E w =
     (let serr = os_Stat E (trace w) ''./tmp/pglite/base/PG_VERSION'';
          w1 = emit (EStat ''./tmp/pglite/base/PG_VERSION'' serr) w
      in if serr \<noteq> None then
           (let w2 = emit (EPrintln ''Extracting env....'') w1;
                w3 = emit (EGzipNewReader (gzip_result E)) w2
            in if gzip_result E \<noteq> None then (gzip_result E, w3, [])
               else extract_loop E (tar_stream E) w3 [EGzipClose])
         else (None, w1, []))"

text \<open>
  Lines 190 to 206: the random-device shim and the read of the WebAssembly binary. The
  buffer \<open>rng\<close> has 128 bytes whatever \<open>rand.Read\<close> does; the result of \<open>rf.Write\<close> is dropped.
  The mode \<open>0755\<close> of the source is octal: \<open>0x1ED\<close>.
\<close>

definition setup_dev ::
  "env \<Rightarrow> world \<Rightarrow> event list \<Rightarrow> (byte list \<times> error option) \<times> world \<times> event list" where
  "setup_dev E w ds =
     (let err = os_MkdirAll E (trace w) ''./dev'' 0x1ED;
          w1 = emit (EMkdirAll ''./dev'' 0x1ED err) w
      in if err \<noteq> None then (([], err), w1, ds)
         else
           let err2 = os_Create E (trace w1) ''./dev/urandom'';
               w2 = emit (ECreate ''./dev/urandom'' err2) w1
           in if err2 \<noteq> None then (([], err2), w2, ds)
              else
                let ds' = EFileClose ''./dev/urandom'' # ds;
                    rd = rand_Read E (trace w2) 128;
                    rng = take 128 (fst rd @ replicate 128 0);
                    w3 = emit (ERandRead 128 rng (snd rd)) w2
                in if snd rd \<noteq> None then (([], snd rd), w3, ds')
                   else
                     let w4 = emit (EFileWrite ''./dev/urandom'' rng) w3;
                         rf = os_ReadFile E (trace w4) ''./tmp/pglite/bin/postgres.wasi'';
                         w5 = emit (EReadFile ''./tmp/pglite/bin/postgres.wasi'' (fst rf) (snd rf)) w4
                     in (rf, w5, ds'))"

definition setupEnv :: "env \<Rightarrow> world \<Rightarrow> (byte list \<times> error option) \<times> world" where
  "setupEnv E w =
     (case extract_if_absent E w of
        (Some err, w1, ds) \<Rightarrow> (([], Some err), run_deferred ds w1)
      | (None, w1, ds) \<Rightarrow>
          (case setup_dev E w1 ds of (res, w2, ds2) \<Rightarrow> (res, run_deferred ds2 w2)))"

section \<open>NewPGLite\<close>

text \<open>
  \<open>wasi_snapshot_preview1.MustInstantiate\<close> panics when the instantiation fails.
  \<open>InstantiateWithConfig\<close> answers a module handle (possibly nil) and an error (possibly
  nil), and the environment says what memory the new module has. After an error, the type
  assertion \<open>err.(*sys.ExitError)\<close> succeeds exactly on \<open>ExitError\<close>.
\<close>

text \<open>
  Lines 85 to 106: the \<open>PGLite\<close> value and the two initialisation calls, on the runtime
  \<open>r\<close> and the module handle \<open>mod' p\<close> that the instantiation returned.
\<close>

definition init_handshake ::
  "env \<Rightarrow> runtime \<Rightarrow> PGLite \<Rightarrow> world \<Rightarrow> (PGLite option \<times> error option) outcome \<times> world" where
  "init_handshake E r p w4 =
     (case call_exported E (mod' p) ''pg_initdb'' w4 of
        (Panicked, w5) \<Rightarrow> (Panicked, w5)
      | (Returned (initDBRV, Some err), w5) \<Rightarrow>
          (Returned (None, Some (Errorf ''pg_initdb: %w'' [ArgErr err])),
           emit (ERuntimeClose r) w5)
      | (Returned (initDBRV, None), w5) \<Rightarrow>
          (case Fprintf (stderr p) ''initdb returned: %b\<newline>'' [ArgUint64s initDBRV] w5 of
             (Panicked, w6) \<Rightarrow> (Panicked, w6)
           | (Returned u, w6) \<Rightarrow>
               (case call_exported E (mod' p) ''use_socketfile'' w6 of
                  (Panicked, w7) \<Rightarrow> (Panicked, w7)
                | (Returned (rv, Some err), w7) \<Rightarrow>
                    (Returned (None, Some (Errorf ''use_socketfile: %w'' [ArgErr err])),
                     emit (ERuntimeClose r) w7)
                | (Returned (rv, None), w7) \<Rightarrow>
                    (Returned (Some p, None), w7))))"

text \<open>
  The configuration handed to \<open>InstantiateWithConfig\<close>: the directory mounts, the two
  writers, the arguments and the environment variables, in the order of the source.
\<close>

definition instantiate_config :: "writer option \<Rightarrow> writer option \<Rightarrow> module_config" where
  "instantiate_config stdout0 stderr0 =
     (let fsConfig = WithDirMount ''./dev'' ''/dev'' (WithDirMount ''./tmp'' ''/tmp'' NewFSConfig);
          config = WithFSConfig fsConfig (WithStderr stderr0 (WithStdout stdout0 NewModuleConfig))
      in WithEnv ''PGDATABASE'' ''postgres'' (WithEnv ''PGUSER'' ''postgres''
           (WithEnv ''REPL'' ''N'' (WithEnv ''ENVIRONMENT'' ''wasi-embed''
           (WithArgs [''--single'', ''postgres''] config)))))"

text \<open>
  Lines 75 to 83: the error with which \<open>NewPGLite\<close> returns after the instantiation, if it
  does. An \<open>ExitError\<close> with exit code 0 and no error at all both let it go on.
\<close>

definition instantiate_failure :: "error option \<Rightarrow> error option" where
  "instantiate_failure ierr =
     (case ierr of
        None \<Rightarrow> None
      | Some (ExitError c) \<Rightarrow>
          if c \<noteq> 0 then Some (Errorf ''wasm exit_code: %d'' [ArgUint32 c]) else None
      | Some e \<Rightarrow> Some (Errorf ''instantiate: %w'' [ArgErr e]))"

definition NewPGLite ::
  "env \<Rightarrow> go_context \<Rightarrow> writer option \<Rightarrow> writer option \<Rightarrow> runtime_config option list \<Rightarrow> world
     \<Rightarrow> (PGLite option \<times> error option) outcome \<times> world" where
  "NewPGLite E ctx0 stdout0 stderr0 rtConfig w0 =
     (case setupEnv E w0 of
        ((blob, Some err), w1) \<Rightarrow>
          (Returned (None, Some (Errorf ''setupEnv: %w'' [ArgErr err])), w1)
      | ((blob, None), w1) \<Rightarrow>
          let rc = (case rtConfig of Some c # _ \<Rightarrow> Some c | _ \<Rightarrow> None);
              r = wazero_NewRuntime E (trace w1) rc;
              w2 = emit (ENewRuntime rc r) w1;
              werr = wasi_Instantiate E (trace w2) r;
              w3 = emit (EWasiInstantiate werr) w2
          in if werr \<noteq> None then (Panicked, w3)
             else
               let config = instantiate_config stdout0 stderr0;
                   inst = rt_Instantiate E (trace w3) r blob config;
                   mo = fst (fst inst);
                   ierr = snd (fst inst);
                   w4 = emit (EInstantiate blob config mo ierr)
                          (case mo of None \<Rightarrow> w3
                           | Some m \<Rightarrow> w3\<lparr>memories := (memories w3)(m := snd inst)\<rparr>)
               in if instantiate_failure ierr \<noteq> None
                  then (Returned (None, instantiate_failure ierr), emit (ERuntimeClose r) w4)
                  else init_handshake E r
                         \<lparr>runtime = Some r, mod' = mo, ctx = ctx0,
                          stdout = stdout0, stderr = stderr0\<rparr> w4)"

section \<open>The Go string functions used by RunQueries\<close>

text \<open>
  A Go string is a sequence of bytes, here a \<open>string\<close>. \<open>strings.Index(s, substr)\<close> is the
  position of the first occurrence of \<open>substr\<close> in \<open>s\<close> (\<open>None\<close> for Go's \<open>-1\<close>).
\<close>

fun Index :: "string \<Rightarrow> string \<Rightarrow> nat option" where
  "Index [] substr = (if substr = [] then Some 0 else None)"
| "Index (c # cs) substr =
     (if take (length substr) (c # cs) = substr then Some 0
      else map_option Suc (Index cs substr))"

text \<open>
  \<open>utf8.DecodeRuneInString\<close>: the first rune of \<open>s\<close> and its width in bytes; an invalid
  or incomplete encoding is \<open>RuneError\<close> of width 1. \<open>first\<close> is the table of lead bytes:
  the width of the encoding and the range allowed for the second byte.
\<close>

definition RuneError :: nat where
  "RuneError = 0xFFFD"

definition first :: "nat \<Rightarrow> (nat \<times> nat \<times> nat) option" where
  "first s0 =
     (if 0xC2 \<le> s0 \<and> s0 \<le> 0xDF then Some (2, 0x80, 0xBF)
      else if s0 = 0xE0 then Some (3, 0xA0, 0xBF)
      else if (0xE1 \<le> s0 \<and> s0 \<le> 0xEC) \<or> s0 = 0xEE \<or> s0 = 0xEF then Some (3, 0x80, 0xBF)
      else if s0 = 0xED then Some (3, 0x80, 0x9F)
      else if s0 = 0xF0 then Some (4, 0x90, 0xBF)
      else if 0xF1 \<le> s0 \<and> s0 \<le> 0xF3 then Some (4, 0x80, 0xBF)
      else if s0 = 0xF4 then Some (4, 0x80, 0x8F)
      else None)"

definition DecodeRuneInString :: "string \<Rightarrow> nat \<times> nat" where
  "DecodeRuneInString s =
     (case map of_char s of
        [] \<Rightarrow> (RuneError, 0)
      | s0 # t \<Rightarrow>
          if s0 < 0x80 then (s0, 1)
          else
            (case first s0 of
               None \<Rightarrow> (RuneError, 1)
             | Some (sz, lo, hi) \<Rightarrow>
                 if length s < sz then (RuneError, 1)
                 else if t ! 0 < lo \<or> hi < t ! 0 then (RuneError, 1)
                 else if sz \<le> 2 then ((s0 mod 32) * 64 + t ! 0 mod 64, 2)
                 else if t ! 1 < 0x80 \<or> 0xBF < t ! 1 then (RuneError, 1)
                 else if sz \<le> 3 then
                   ((s0 mod 16) * 4096 + (t ! 0 mod 64) * 64 + t ! 1 mod 64, 3)
                 else if t ! 2 < 0x80 \<or> 0xBF < t ! 2 then (RuneError, 1)
                 else ((s0 mod 8) * 262144 + (t ! 0 mod 64) * 4096 + (t ! 1 mod 64) * 64
                         + t ! 2 mod 64, 4)))"

text \<open>
  The runes of a string from left to right, each with the bytes that encode it. The width of
  the first rune of a non-empty string is at least 1, so the rest is \<open>drop (n - 1) cs\<close>.
\<close>

fun runes :: "string \<Rightarrow> (nat \<times> string) list" where
  "runes [] = []"
| "runes (c # cs) =
     (let d = DecodeRuneInString (c # cs)
      in (fst d, c # take (snd d - 1) cs) # runes (drop (snd d - 1) cs))"

text \<open>\<open>unicode.IsSpace\<close>: the Latin-1 spaces, and Unicode's White_Space beyond Latin-1.\<close>

definition IsSpace :: "nat \<Rightarrow> bool" where
  "IsSpace r =
     (if r \<le> 0xFF then r \<in> {0x09, 0x0A, 0x0B, 0x0C, 0x0D, 0x20, 0x85, 0xA0}
      else r = 0x1680 \<or> (0x2000 \<le> r \<and> r \<le> 0x200A) \<or> r = 0x2028 \<or> r = 0x2029
        \<or> r = 0x202F \<or> r = 0x205F \<or> r = 0x3000)"

text \<open>\<open>strings.TrimSpace\<close>: \<open>s\<close> without its leading and trailing white-space runes.\<close>

definition TrimSpace :: "string \<Rightarrow> string" where
  "TrimSpace s =
     concat (map snd (rev (dropWhile (\<lambda>r. IsSpace (fst r))
       (rev (dropWhile (\<lambda>r. IsSpace (fst r)) (runes s))))))"

text \<open>
  \<open>strings.Split(s, sep)\<close>: the pieces of \<open>s\<close> between the occurrences of \<open>sep\<close>, found
  from the left one after the other; with an empty \<open>sep\<close>, the runes of \<open>s\<close>.
\<close>

function Split :: "string \<Rightarrow> string \<Rightarrow> string list" where
  "Split s sep =
     (if sep = [] then map snd (runes s)
      else
        (case Index s sep of
           None \<Rightarrow> [s]
         | Some m \<Rightarrow> take m s # Split (drop (m + length sep) s) sep))"
  by pat_completeness auto
termination
proof (relation "measure (\<lambda>(s, sep). length s)")
  show "wf (measure (\<lambda>(s, sep). length s))" by simp
next
  fix s sep :: string and m :: nat
  assume "sep \<noteq> []" and "Index s sep = Some m"
  then have "s \<noteq> []" by (cases s) auto
  with \<open>sep \<noteq> []\<close> show "((drop (m + length sep) s, sep), (s, sep)) \<in> measure (\<lambda>(s, sep). length s)"
    by simp
qed

section \<open>RunQueries\<close>

text \<open>The body of the \<open>range\<close> loop, over the lines still to visit.\<close>

fun RunQueries_loop ::
  "env \<Rightarrow> PGLite \<Rightarrow> string list \<Rightarrow> world \<Rightarrow> error option outcome \<times> world" where
  "RunQueries_loop E p [] w = (Returned None, w)"
| "RunQueries_loop E p (line # rest) w =
     (if TrimSpace line \<noteq> [] then
        (case Fprintf (stderr p) ''REPL: %s\<newline>'' [ArgString line] w of
           (Panicked, w1) \<Rightarrow> (Panicked, w1)
         | (Returned u, w1) \<Rightarrow>
             (case Query E p line w1 of
                (Panicked, w2) \<Rightarrow> (Panicked, w2)
              | (Returned (Some err), w2) \<Rightarrow> (Returned (Some err), w2)
              | (Returned None, w2) \<Rightarrow> RunQueries_loop E p rest w2))
      else RunQueries_loop E p rest w)"

definition RunQueries :: "env \<Rightarrow> PGLite \<Rightarrow> string \<Rightarrow> world \<Rightarrow> error option outcome \<times> world" where
  "RunQueries E p input w = RunQueries_loop E p (Split input ''\<newline>\<newline>'') w"

section \<open>Observations on a trace\<close>

text \<open>
  The exported functions called, in order, each with the error its call returned; the
  payloads of the memory writes; the files written to.
\<close>

definition calls :: "event list \<Rightarrow> (string \<times> error option) list" where
  "calls evs = concat (map (\<lambda>ev. case ev of ECall m name mem rv err \<Rightarrow> [(name, err)] | _ \<Rightarrow> []) evs)"

definition mem_writes :: "event list \<Rightarrow> byte list list" where
  "mem_writes evs = concat (map (\<lambda>ev. case ev of EMemWrite m off v ok \<Rightarrow> [v] | _ \<Rightarrow> []) evs)"

definition file_writes :: "event list \<Rightarrow> (string \<times> byte list) list" where
  "file_writes evs = concat (map (\<lambda>ev. case ev of EFileWrite p b \<Rightarrow> [(p, b)] | _ \<Rightarrow> []) evs)"

text \<open>Whether a call reads the embedded archive.\<close>

definition reads_archive :: "event \<Rightarrow> bool" where
  "reads_archive ev = (case ev of EGzipNewReader err \<Rightarrow> True | ETarNext it \<Rightarrow> True | _ \<Rightarrow> False)"

text \<open>The path that a call creates or changes in the file system, if it is such a call.\<close>

definition written_path :: "event \<Rightarrow> string option" where
  "written_path ev =
     (case ev of
        EMkdirAll p m err \<Rightarrow> Some p
      | ECreate p err \<Rightarrow> Some p
      | ECopy p err \<Rightarrow> Some p
      | ESymlink t p err \<Rightarrow> Some p
      | EFileWrite p b \<Rightarrow> Some p
      | _ \<Rightarrow> None)"

text \<open>
  The error with which a library call makes \<open>setupEnv\<close> return, if it does: the failure of
  the gzip reader, of \<open>tr.Next()\<close>, of a directory, file or symlink creation, of the copy of a
  file's contents, of \<open>rand.Read\<close>, of the read of the WebAssembly binary, and the error made
  for a header whose type is none of directory, regular file and symlink.
\<close>

definition setup_failure :: "event \<Rightarrow> error option" where
  "setup_failure ev =
     (case ev of
        EGzipNewReader err \<Rightarrow> err
      | ETarNext it \<Rightarrow>
          (case it of
             None \<Rightarrow> None
           | Some (NextError err) \<Rightarrow> Some err
           | Some (Header h) \<Rightarrow>
               if Typeflag h = TypeDir \<or> Typeflag h = TypeReg \<or> Typeflag h = TypeSymlink then None
               else Some (Errorf ''unknown file type in tar: %c (%s)''
                            [ArgByte (Typeflag h), ArgString (Name h)]))
      | EMkdirAll p m err \<Rightarrow> err
      | ECreate p err \<Rightarrow> err
      | ECopy p err \<Rightarrow> err
      | ESymlink t p err \<Rightarrow> err
      | ERandRead n b err \<Rightarrow> err
      | EReadFile p b err \<Rightarrow> err
      | _ \<Rightarrow> None)"

text \<open>
  For a run of \<open>Query\<close>: the call of \<open>interactive_one\<close> follows a memory write of the C string
  of \<open>sql\<close>, and the memory handed to the call holds that C string where it was written.
\<close>

definition sql_in_memory_at_call :: "string \<Rightarrow> event list \<Rightarrow> bool" where
  "sql_in_memory_at_call sql evs =
     (case evs of
        [EMemWrite m off v ok, ECall m' name (Some snap) rv err] \<Rightarrow>
          m' = m \<and> name = ''interactive_one'' \<and> v = bytes_of sql @ [0] \<and>
          take (length v) (drop off snap) = v
      | _ \<Rightarrow> False)"

text \<open>A \<open>PGLite\<close> on which \<open>Query\<close> does not panic: a module with a memory that exports
  \<open>interactive_one\<close>; for \<open>RunQueries\<close>, a writer for the echo as well.\<close>

definition can_query :: "env \<Rightarrow> PGLite \<Rightarrow> world \<Rightarrow> bool" where
  "can_query E p w =
     (case mod' p of
        None \<Rightarrow> False
      | Some m \<Rightarrow> memories w m \<noteq> None \<and> ExportedFunction E m ''interactive_one'')"

section \<open>An example environment\<close>

text \<open>
  A small environment on which the definitions can be run: an archive of one directory, the
  marker file and one symlink; a file system in which the marker exists once its contents
  have been copied; libraries that succeed; a module with eight bytes of memory whose
  exported functions return 0 and leave the memory alone.
\<close>

definition demo_archive :: "tar_item list" where
  "demo_archive =
     [Header \<lparr>Typeflag = TypeDir, Name = ''tmp/pglite/base'', Linkname = [], Mode = 0x1ED\<rparr>,
      Header \<lparr>Typeflag = TypeReg, Name = ''tmp/pglite/base/PG_VERSION'', Linkname = [], Mode = 0x1ED\<rparr>,
      Header \<lparr>Typeflag = TypeSymlink, Name = ''tmp/pglite/bin/postgres'', Linkname = ''postgres.wasi'',
        Mode = 0x1FF\<rparr>]"

definition demo_env :: env where
  "demo_env =
     \<lparr>gzip_result = None,
      tar_stream = demo_archive,
      filepath_Join = (\<lambda>a b. b),
      filepath_Dir = (\<lambda>p. ''tmp/pglite/base''),
      os_Stat = (\<lambda>h p. if ECopy ''tmp/pglite/base/PG_VERSION'' None \<in> set h then None
                         else Some (LibError ''no such file or directory'')),
      os_MkdirAll = (\<lambda>h p m. None),
      os_Create = (\<lambda>h p. None),
      io_Copy = (\<lambda>h p. None),
      os_Symlink = (\<lambda>h t p. None),
      rand_Read = (\<lambda>h n. (replicate n 7, None)),
      os_ReadFile = (\<lambda>h p. ([0, 0x61, 0x73, 0x6D], None)),
      wazero_NewRuntime = (\<lambda>h c. 1),
      wasi_Instantiate = (\<lambda>h r. None),
      rt_Instantiate = (\<lambda>h r blob c. ((Some 0, None), Some (replicate 8 0))),
      ExportedFunction = (\<lambda>m name. True),
      fn_Call = (\<lambda>h m name mem. (([0], None), case mem of None \<Rightarrow> [] | Some b \<Rightarrow> b))\<rparr>"

definition demo_pg :: PGLite where
  "demo_pg = \<lparr>runtime = Some 1, mod' = Some 0, ctx = Context 0,
     stdout = Some Stdout, stderr = Some Stderr\<rparr>"

text \<open>A world with an empty trace in which module 0 has \<open>n\<close> bytes of memory, all \<open>0xFF\<close>.\<close>

definition demo_world :: "nat \<Rightarrow> world" where
  "demo_world n = \<lparr>trace = [], memories = (\<lambda>m. if m = 0 then Some (replicate n 0xFF) else None)\<rparr>"

text \<open>The example environment with a module whose \<open>interactive_one\<close> fails.\<close>

definition failing_env :: env where
  "failing_env = demo_env\<lparr>fn_Call := (\<lambda>h m name mem.
       (([], if name = ''interactive_one'' then Some (LibError ''wasm error: unreachable'') else None),
        case mem of None \<Rightarrow> [] | Some b \<Rightarrow> b))\<rparr>"

section \<open>Predicates on the events of setupEnv\<close>

text \<open>The events that \<open>setupEnv\<close> can emit, and among them the deferred closes.\<close>

definition setup_event :: "event \<Rightarrow> bool" where
  "setup_event ev =
     (case ev of
        ENewRuntime rc r \<Rightarrow> False
      | EWasiInstantiate err \<Rightarrow> False
      | EInstantiate b c mo err \<Rightarrow> False
      | ERuntimeClose r \<Rightarrow> False
      | EMemWrite m off v ok \<Rightarrow> False
      | ECall m name mem rv err \<Rightarrow> False
      | EFprintf out f args \<Rightarrow> False
      | _ \<Rightarrow> True)"

definition close_event :: "event \<Rightarrow> bool" where
  "close_event ev = (case ev of EGzipClose \<Rightarrow> True | EFileClose p \<Rightarrow> True | _ \<Rightarrow> False)"

text \<open>
  A stretch of \<open>setupEnv\<close> that ends with the result \<open>r\<close> (an error to return with, or
  \<open>None\<close> to go on): every event is one of \<open>setupEnv\<close>, a call that fails is the reason
  for \<open>r\<close>, and an error \<open>r\<close> is the failure of one of the calls.
\<close>

definition stretch :: "event list \<Rightarrow> error option \<Rightarrow> bool" where
  "stretch evs r =
     ((\<forall>ev \<in> set evs. setup_event ev \<and> (setup_failure ev \<noteq> None \<longrightarrow> setup_failure ev = r)) \<and>
      (r \<noteq> None \<longrightarrow> r \<in> setup_failure ` set evs))"

definition not_read_file :: "event \<Rightarrow> bool" where
  "not_read_file ev = (case ev of EReadFile p b err \<Rightarrow> False | _ \<Rightarrow> True)"

text \<open>No library call fails, except possibly the final read of the WebAssembly binary.\<close>

definition no_failure_before_read :: "event list \<Rightarrow> bool" where
  "no_failure_before_read evs = (\<forall>ev \<in> set evs. setup_failure ev = None \<or> \<not> not_read_file ev)"

text \<open>
  The calls of lines 190 to 206 when none of them fails before the read: \<open>rng\<close> is the
  buffer filled by \<open>rand.Read\<close>, \<open>blob\<close> and \<open>err\<close> the result of \<open>os.ReadFile\<close>.
\<close>

definition shim_events :: "byte list \<Rightarrow> byte list \<Rightarrow> error option \<Rightarrow> event list" where
  "shim_events rng blob err =
     [EMkdirAll ''./dev'' 0x1ED None, ECreate ''./dev/urandom'' None, ERandRead 128 rng None,
      EFileWrite ''./dev/urandom'' rng, EReadFile ''./tmp/pglite/bin/postgres.wasi'' blob err]"

text \<open>
  Events that leave the extracted tree alone: none reads the archive, and the only paths
  created or written are \<open>./dev\<close> and \<open>./dev/urandom\<close>.
\<close>

definition leaves_tree_alone :: "event list \<Rightarrow> bool" where
  "leaves_tree_alone evs =
     (\<forall>ev \<in> set evs. \<not> reads_archive ev \<and>
        (case written_path ev of None \<Rightarrow> True | Some p \<Rightarrow> p = ''./dev'' \<or> p = ''./dev/urandom''))"

text \<open>The calls that the extraction (lines 140 to 188) can make.\<close>

definition extraction_event :: "event \<Rightarrow> bool" where
  "extraction_event ev =
     (case ev of
        EStat p err \<Rightarrow> True
      | EPrintln s \<Rightarrow> True
      | EGzipNewReader err \<Rightarrow> True
      | ETarNext it \<Rightarrow> True
      | EMkdirAll p m err \<Rightarrow> True
      | ECreate p err \<Rightarrow> True
      | ECopy p err \<Rightarrow> True
      | ESymlink t p err \<Rightarrow> True
      | _ \<Rightarrow> False)"




text \<open>The example environment with an archive that \<open>gzip.NewReader\<close> refuses.\<close>

definition broken_env :: env where
  "broken_env = demo_env\<lparr>gzip_result := Some (LibError ''gzip: invalid header'')\<rparr>"

text \<open>The example environment with a module that exits with code \<open>c\<close> when instantiated.\<close>

definition exiting_env :: "32 word \<Rightarrow> env" where
  "exiting_env c = demo_env\<lparr>rt_Instantiate :=
     (\<lambda>h r blob cfg. ((Some 0, Some (ExitError c)), Some (replicate 8 0)))\<rparr>"

text \<open>The example environment with a module in which the exported function \<open>f\<close> fails.\<close>

definition crashing_env :: "string \<Rightarrow> env" where
  "crashing_env f = demo_env\<lparr>fn_Call := (\<lambda>h m name mem.
       (([], if name = f then Some (LibError ''wasm error: unreachable'') else None),
        case mem of None \<Rightarrow> [] | Some b \<Rightarrow> b))\<rparr>"

section \<open>Basic facts\<close>

lemma trace_emit [simp]: "trace (emit ev w) = trace w @ [ev]"
  by (simp add: emit_def)

lemma memories_emit [simp]: "memories (emit ev w) = memories w"
  by (simp add: emit_def)

lemma trace_run_deferred [simp]: "trace (run_deferred ds w) = trace w @ ds"
  by (simp add: run_deferred_def)

lemma memories_run_deferred [simp]: "memories (run_deferred ds w) = memories w"
  by (simp add: run_deferred_def)

lemma events_since_append: "trace w' = trace w @ evs \<Longrightarrow> events_since w w' = evs"
  by (simp add: events_since_def)

lemma length_bytes_of [simp]: "length (bytes_of s) = length s"
  by (simp add: bytes_of_def)

lemma Memory_Write_length [simp]: "length (snd (Memory_Write buf off v)) = length buf"
  by (auto simp: Memory_Write_def hasSize_def)

lemma Memory_Write_ok: "fst (Memory_Write buf off v) = (off + length v \<le> length buf)"
  by (simp add: Memory_Write_def hasSize_def)

lemma Memory_Write_overflow:
  "length buf < off + length v \<Longrightarrow> Memory_Write buf off v = (False, buf)"
  by (simp add: Memory_Write_def hasSize_def)

lemma Memory_Write_outside:
  "i < length buf \<Longrightarrow> i < off \<or> off + length v \<le> i \<Longrightarrow>
     snd (Memory_Write buf off v) ! i = buf ! i"
  by (auto simp: Memory_Write_def hasSize_def nth_append)

lemma Memory_Write_inside:
  "off + length v \<le> length buf \<Longrightarrow>
     take (length v) (drop off (snd (Memory_Write buf off v))) = v"
  by (simp add: Memory_Write_def hasSize_def)

lemma call_exported_run:
  "ExportedFunction E m name \<Longrightarrow>
   call_exported E (Some m) name w =
     (Returned (fst (fn_Call E (trace w) m name (memories w m))),
      emit (ECall m name (memories w m)
              (fst (fst (fn_Call E (trace w) m name (memories w m))))
              (snd (fst (fn_Call E (trace w) m name (memories w m)))))
        (case memories w m of None \<Rightarrow> w
         | Some b \<Rightarrow> w\<lparr>memories := (memories w)(m := Some (snd (fn_Call E (trace w) m name (memories w m))))\<rparr>))"
  by (simp add: call_exported_def Let_def)

section \<open>Query\<close>

text \<open>What \<open>Query\<close> does on a module that has a memory and exports \<open>interactive_one\<close>.\<close>

lemma Query_run:
  fixes sql :: string and w :: world
  assumes "mod' p = Some m" "memories w m = Some buf" "ExportedFunction E m ''interactive_one''"
  defines "wr \<equiv> Memory_Write buf 1 (bytes_of sql @ [0])"
  defines "h \<equiv> trace w @ [EMemWrite m 1 (bytes_of sql @ [0]) (fst wr)]"
  defines "res \<equiv> fn_Call E h m ''interactive_one'' (Some (snd wr))"
  shows "Query E p sql w =
     (Returned (snd (fst res)),
      \<lparr>trace = h @ [ECall m ''interactive_one'' (Some (snd wr)) (fst (fst res)) (snd (fst res))],
       memories = (memories w)(m := Some (snd res))\<rparr>)"
  using assms
  by (simp add: Query_def Let_def call_exported_run emit_def split: prod.splits)

lemma Query_events:
  fixes sql :: string and w :: world
  assumes "mod' p = Some m" "memories w m = Some buf" "ExportedFunction E m ''interactive_one''"
  shows "\<exists>rv. events_since w (snd (Query E p sql w)) =
           [EMemWrite m 1 (bytes_of sql @ [0]) (fst (Memory_Write buf 1 (bytes_of sql @ [0]))),
            ECall m ''interactive_one'' (Some (snd (Memory_Write buf 1 (bytes_of sql @ [0])))) rv
              (case fst (Query E p sql w) of Returned err \<Rightarrow> err | Panicked \<Rightarrow> None)]
         \<and> fst (Query E p sql w) \<noteq> Panicked"
  by (simp add: Query_run [OF assms] events_since_def)

text \<open>
  When the C string fits, \<open>Query\<close> does what it is meant to do: its two library calls are
  the write of the bytes of \<open>sql\<close> and one zero byte at offset 1 and then the call of
  \<open>interactive_one\<close>, and the memory handed to that call holds the C string at offset 1.
\<close>

lemma Query_writes_when_fits:
  fixes sql :: string and w :: world
  assumes "mod' p = Some m" "memories w m = Some buf" "ExportedFunction E m ''interactive_one''"
  shows "(\<exists>ok snap rv err. events_since w (snd (Query E p sql w)) =
            [EMemWrite m 1 (bytes_of sql @ [0]) ok, ECall m ''interactive_one'' (Some snap) rv err])
       \<and> (length sql + 2 \<le> length buf \<longrightarrow>
            sql_in_memory_at_call sql (events_since w (snd (Query E p sql w))))"
proof -
  let ?c = "bytes_of sql @ [0]"
  from Query_events [OF assms, of sql] obtain rv where
    ev: "events_since w (snd (Query E p sql w)) =
      [EMemWrite m 1 ?c (fst (Memory_Write buf 1 ?c)),
       ECall m ''interactive_one'' (Some (snd (Memory_Write buf 1 ?c))) rv
         (case fst (Query E p sql w) of Returned err \<Rightarrow> err | Panicked \<Rightarrow> None)]"
    by blast
  have "sql_in_memory_at_call sql (events_since w (snd (Query E p sql w)))"
    if fit: "length sql + 2 \<le> length buf"
  proof -
    have "1 + length ?c \<le> length buf" using fit by simp
    from Memory_Write_inside [OF this] show ?thesis
      by (simp add: ev sql_in_memory_at_call_def)
  qed
  with ev show ?thesis by blast
qed

text \<open>
  C1: for every \<open>sql\<close>, \<open>Query\<close> should first write the bytes of \<open>sql\<close> and one zero byte
  into the memory at a fixed offset and only then call \<open>interactive_one\<close>. The code misses
  this when the C string does not fit, because it drops the boolean that \<open>Write\<close> answers:
  with four bytes of memory and \<open>sql = ''abc''\<close> the write at offset 1 needs five bytes,
  \<open>Write\<close> answers false and writes nothing, \<open>interactive_one\<close> runs on a memory that does
  not hold the statement, and \<open>Query\<close> returns no error.
\<close>

theorem Query_write_counterexample:
  "mod' demo_pg = Some 0 \<and> memories (demo_world 4) 0 = Some [0xFF, 0xFF, 0xFF, 0xFF] \<and>
   ExportedFunction demo_env 0 ''interactive_one'' \<and>
   events_since (demo_world 4) (snd (Query demo_env demo_pg ''abc'' (demo_world 4))) =
     [EMemWrite 0 1 [0x61, 0x62, 0x63, 0] False,
      ECall 0 ''interactive_one'' (Some [0xFF, 0xFF, 0xFF, 0xFF]) [0] None] \<and>
   fst (Query demo_env demo_pg ''abc'' (demo_world 4)) = Returned None \<and>
   \<not> sql_in_memory_at_call ''abc''
        (events_since (demo_world 4) (snd (Query demo_env demo_pg ''abc'' (demo_world 4))))"
  by (simp add: demo_pg_def demo_world_def demo_env_def Query_def call_exported_def Let_def
        Memory_Write_def hasSize_def bytes_of_def emit_def events_since_def
        sql_in_memory_at_call_def numeral_eq_Suc)

lemma Query_not_exported:
  fixes sql :: string and w :: world
  assumes "mod' p = Some m" "memories w m = Some buf" "\<not> ExportedFunction E m ''interactive_one''"
  shows "Query E p sql w =
     (Panicked,
      \<lparr>trace = trace w @ [EMemWrite m 1 (bytes_of sql @ [0]) (fst (Memory_Write buf 1 (bytes_of sql @ [0])))],
       memories = (memories w)(m := Some (snd (Memory_Write buf 1 (bytes_of sql @ [0]))))\<rparr>)"
  using assms
  by (simp add: Query_def Let_def call_exported_def emit_def)

lemma events_since_same [simp]: "events_since w w = []"
  by (simp add: events_since_def)

lemma Query_no_module: "mod' p = None \<Longrightarrow> Query E p sql w = (Panicked, w)"
  by (simp add: Query_def)

lemma Query_no_memory:
  "mod' p = Some m \<Longrightarrow> memories w m = None \<Longrightarrow> Query E p sql w = (Panicked, w)"
  by (simp add: Query_def)

text \<open>
  C9: the offset at which \<open>Query\<close> writes the C string is 1, not 0. For every \<open>sql\<close>, the
  memory after the write (the memory handed to \<open>interactive_one\<close>, or the module's memory
  when the call panics because \<open>interactive_one\<close> is not exported) has the size of the
  memory before, agrees with it at offset 0 and at every offset above \<open>len(sql) + 1\<close>, and,
  when the write fits, holds the bytes of \<open>sql\<close> and the zero byte at offsets 1 to
  \<open>len(sql) + 1\<close>.
\<close>

theorem Query_write_frame:
  fixes sql :: string and w :: world
  assumes "mod' p = Some m" "memories w m = Some buf"
  shows "\<exists>ok snap.
     length snap = length buf \<and>
     (\<forall>i < length buf. i < 1 \<or> length sql + 1 < i \<longrightarrow> snap ! i = buf ! i) \<and>
     (ok \<longleftrightarrow> length sql + 2 \<le> length buf) \<and>
     (ok \<longrightarrow> take (length sql + 1) (drop 1 snap) = bytes_of sql @ [0]) \<and>
     (if ExportedFunction E m ''interactive_one''
      then \<exists>rv err. events_since w (snd (Query E p sql w)) =
             [EMemWrite m 1 (bytes_of sql @ [0]) ok, ECall m ''interactive_one'' (Some snap) rv err]
      else events_since w (snd (Query E p sql w)) = [EMemWrite m 1 (bytes_of sql @ [0]) ok] \<and>
           memories (snd (Query E p sql w)) m = Some snap \<and>
           fst (Query E p sql w) = Panicked)"
proof -
  let ?c = "bytes_of sql @ [0]"
  let ?ok = "fst (Memory_Write buf 1 ?c)"
  let ?snap = "snd (Memory_Write buf 1 ?c)"
  have 1: "length ?snap = length buf" by simp
  have 2: "\<forall>i < length buf. i < 1 \<or> length sql + 1 < i \<longrightarrow> ?snap ! i = buf ! i"
    by (auto intro!: Memory_Write_outside)
  have 3: "?ok \<longleftrightarrow> length sql + 2 \<le> length buf"
    by (simp add: Memory_Write_ok)
  have 4: "?ok \<longrightarrow> take (length sql + 1) (drop 1 ?snap) = ?c"
    using Memory_Write_inside [of 1 ?c buf] by (simp add: Memory_Write_ok)
  have 5: "if ExportedFunction E m ''interactive_one''
      then \<exists>rv err. events_since w (snd (Query E p sql w)) =
             [EMemWrite m 1 ?c ?ok, ECall m ''interactive_one'' (Some ?snap) rv err]
      else events_since w (snd (Query E p sql w)) = [EMemWrite m 1 ?c ?ok] \<and>
           memories (snd (Query E p sql w)) m = Some ?snap \<and>
           fst (Query E p sql w) = Panicked"
  proof (cases "ExportedFunction E m ''interactive_one''")
    case True
    from Query_events [OF assms True, of sql] show ?thesis using True by auto
  next
    case False
    show ?thesis using False
      by (simp add: Query_not_exported [OF assms False] events_since_def)
  qed
  from 1 2 3 4 5 show ?thesis by blast
qed

theorem Query_write_frame_witness:
  "mod' demo_pg = Some 0 \<and> memories (demo_world 8) 0 = Some (replicate 8 0xFF) \<and>
   events_since (demo_world 8) (snd (Query demo_env demo_pg ''abc'' (demo_world 8))) =
     [EMemWrite 0 1 [0x61, 0x62, 0x63, 0] True,
      ECall 0 ''interactive_one'' (Some [0xFF, 0x61, 0x62, 0x63, 0, 0xFF, 0xFF, 0xFF]) [0] None] \<and>
   (\<exists>ok snap.
     length snap = length (replicate 8 (0xFF :: byte)) \<and>
     (\<forall>i < length (replicate 8 (0xFF :: byte)). i < 1 \<or> length ''abc'' + 1 < i \<longrightarrow>
        snap ! i = replicate 8 (0xFF :: byte) ! i) \<and>
     (ok \<longleftrightarrow> length ''abc'' + 2 \<le> length (replicate 8 (0xFF :: byte))) \<and>
     (ok \<longrightarrow> take (length ''abc'' + 1) (drop 1 snap) = bytes_of ''abc'' @ [0]) \<and>
     (\<exists>rv err. events_since (demo_world 8) (snd (Query demo_env demo_pg ''abc'' (demo_world 8))) =
        [EMemWrite 0 1 (bytes_of ''abc'' @ [0]) ok, ECall 0 ''interactive_one'' (Some snap) rv err]))"
proof -
  have a: "mod' demo_pg = Some 0" by (simp add: demo_pg_def)
  have b: "memories (demo_world 8) 0 = Some (replicate 8 0xFF)" by (simp add: demo_world_def)
  have c: "ExportedFunction demo_env 0 ''interactive_one''" by (simp add: demo_env_def)
  have d: "events_since (demo_world 8) (snd (Query demo_env demo_pg ''abc'' (demo_world 8))) =
     [EMemWrite 0 1 [0x61, 0x62, 0x63, 0] True,
      ECall 0 ''interactive_one'' (Some [0xFF, 0x61, 0x62, 0x63, 0, 0xFF, 0xFF, 0xFF]) [0] None]"
    by (simp add: demo_pg_def demo_world_def demo_env_def Query_def call_exported_def Let_def
        Memory_Write_def hasSize_def bytes_of_def emit_def events_since_def numeral_eq_Suc)
  from Query_write_frame [OF a b, of "''abc''" demo_env] c a b d show ?thesis
    by simp
qed

text \<open>
  C8: \<open>Query\<close> returns a non-nil error exactly when its call of \<open>interactive_one\<close> returned
  that error. The boolean answer of the memory write plays no part: when the bytes of \<open>sql\<close>
  and the zero byte do not fit at offset 1, the write is recorded as refused,
  \<open>interactive_one\<close> is still called, on the memory as it was before, and \<open>Query\<close> returns
  what the call returned.
\<close>

theorem Query_error_iff_call_fails:
  fixes sql :: string and w :: world
  shows "((fst (Query E p sql w) = Returned (Some e)) \<longleftrightarrow>
           (\<exists>m snap rv. ECall m ''interactive_one'' snap rv (Some e)
               \<in> set (events_since w (snd (Query E p sql w)))))
       \<and> (mod' p = Some m \<and> memories w m = Some buf \<and> ExportedFunction E m ''interactive_one''
            \<and> length buf < length sql + 2 \<longrightarrow>
          (\<exists>rv err. events_since w (snd (Query E p sql w)) =
              [EMemWrite m 1 (bytes_of sql @ [0]) False, ECall m ''interactive_one'' (Some buf) rv err]
            \<and> fst (Query E p sql w) = Returned err))"
proof
  show "(fst (Query E p sql w) = Returned (Some e)) \<longleftrightarrow>
           (\<exists>m snap rv. ECall m ''interactive_one'' snap rv (Some e)
               \<in> set (events_since w (snd (Query E p sql w))))"
  proof (cases "mod' p")
    case None
    then show ?thesis by (simp add: Query_no_module)
  next
    case (Some m')
    show ?thesis
    proof (cases "memories w m'")
      case None
      with Some show ?thesis by (simp add: Query_no_memory)
    next
      case (Some buf')
      note mem = this
      show ?thesis
      proof (cases "ExportedFunction E m' ''interactive_one''")
        case True
        show ?thesis
          by (auto simp: Query_run [OF \<open>mod' p = Some m'\<close> mem True] events_since_def)
      next
        case False
        show ?thesis
          by (simp add: Query_not_exported [OF \<open>mod' p = Some m'\<close> mem False] events_since_def)
      qed
    qed
  qed
next
  show "mod' p = Some m \<and> memories w m = Some buf \<and> ExportedFunction E m ''interactive_one''
            \<and> length buf < length sql + 2 \<longrightarrow>
          (\<exists>rv err. events_since w (snd (Query E p sql w)) =
              [EMemWrite m 1 (bytes_of sql @ [0]) False, ECall m ''interactive_one'' (Some buf) rv err]
            \<and> fst (Query E p sql w) = Returned err)"
  proof
    assume a: "mod' p = Some m \<and> memories w m = Some buf \<and> ExportedFunction E m ''interactive_one''
            \<and> length buf < length sql + 2"
    then have "length buf < 1 + length (bytes_of sql @ [0])" by simp
    from Memory_Write_overflow [OF this]
    have ov: "Memory_Write buf 1 (bytes_of sql @ [0]) = (False, buf)" .
    from a have 1: "mod' p = Some m" and 2: "memories w m = Some buf"
      and 3: "ExportedFunction E m ''interactive_one''" by simp_all
    show "\<exists>rv err. events_since w (snd (Query E p sql w)) =
              [EMemWrite m 1 (bytes_of sql @ [0]) False, ECall m ''interactive_one'' (Some buf) rv err]
            \<and> fst (Query E p sql w) = Returned err"
      using ov by (simp add: Query_run [OF 1 2 3] events_since_def)
  qed
qed

theorem Query_error_iff_call_fails_witness:
  "mod' demo_pg = Some 0 \<and> memories (demo_world 4) 0 = Some (replicate 4 0xFF) \<and>
   ExportedFunction failing_env 0 ''interactive_one'' \<and>
   length (replicate 4 (0xFF :: byte)) < length ''abc'' + 2 \<and>
   fst (Query failing_env demo_pg ''abc'' (demo_world 4)) = Returned (Some (LibError ''wasm error: unreachable'')) \<and>
   (\<exists>m snap rv. ECall m ''interactive_one'' snap rv (Some (LibError ''wasm error: unreachable''))
       \<in> set (events_since (demo_world 4) (snd (Query failing_env demo_pg ''abc'' (demo_world 4))))) \<and>
   (\<exists>rv err. events_since (demo_world 4) (snd (Query failing_env demo_pg ''abc'' (demo_world 4))) =
       [EMemWrite 0 1 (bytes_of ''abc'' @ [0]) False,
        ECall 0 ''interactive_one'' (Some (replicate 4 0xFF)) rv err]
     \<and> fst (Query failing_env demo_pg ''abc'' (demo_world 4)) = Returned err)"
proof -
  have a: "mod' demo_pg = Some 0" by (simp add: demo_pg_def)
  have b: "memories (demo_world 4) 0 = Some (replicate 4 0xFF)" by (simp add: demo_world_def)
  have c: "ExportedFunction failing_env 0 ''interactive_one''" by (simp add: failing_env_def demo_env_def)
  have d: "fst (Query failing_env demo_pg ''abc'' (demo_world 4)) = Returned (Some (LibError ''wasm error: unreachable''))"
    by (simp add: demo_pg_def demo_world_def failing_env_def demo_env_def Query_def
        call_exported_def Let_def Memory_Write_def hasSize_def bytes_of_def emit_def)
  from Query_error_iff_call_fails [of failing_env demo_pg "''abc''" "demo_world 4"
      "LibError ''wasm error: unreachable''" 0 "replicate 4 0xFF"] a b c d
  show ?thesis by simp
qed

section \<open>setupEnv: the events of a run\<close>

lemma setup_event_simps [simp]:
  "setup_event (EStat p err)" "setup_event (EPrintln s)" "setup_event (EGzipNewReader err)"
  "setup_event EGzipClose" "setup_event (ETarNext it)" "setup_event (EMkdirAll p m err)"
  "setup_event (ECreate p err)" "setup_event (ECopy p err)" "setup_event (ESymlink t p err)"
  "setup_event (EFileClose p)" "setup_event (ERandRead n b err)" "setup_event (EFileWrite p b)"
  "setup_event (EReadFile p b err)"
  "\<not> setup_event (ENewRuntime rc r)" "\<not> setup_event (EWasiInstantiate err)"
  "\<not> setup_event (EInstantiate blob c mo err)" "\<not> setup_event (ERuntimeClose r)"
  "\<not> setup_event (EMemWrite md off v ok)" "\<not> setup_event (ECall md name mem rv err)"
  "\<not> setup_event (EFprintf out f args)"
  by (simp_all add: setup_event_def)

lemma setup_failure_simps [simp]:
  "setup_failure (EStat p err) = None" "setup_failure (EPrintln s) = None"
  "setup_failure (EGzipNewReader err) = err" "setup_failure EGzipClose = None"
  "setup_failure (ETarNext None) = None"
  "setup_failure (ETarNext (Some (NextError e))) = Some e"
  "setup_failure (EMkdirAll p m err) = err" "setup_failure (ECreate p err) = err"
  "setup_failure (ECopy p err) = err" "setup_failure (ESymlink t p err) = err"
  "setup_failure (EFileClose p) = None" "setup_failure (ERandRead n b err) = err"
  "setup_failure (EFileWrite p b) = None" "setup_failure (EReadFile p b err) = err"
  "setup_failure (ENewRuntime rc r) = None" "setup_failure (EWasiInstantiate err) = None"
  "setup_failure (EInstantiate blob c mo err) = None" "setup_failure (ERuntimeClose r) = None"
  "setup_failure (EMemWrite md off v ok) = None" "setup_failure (ECall md name mem rv err) = None"
  "setup_failure (EFprintf out f args) = None"
  by (simp_all add: setup_failure_def)

lemma setup_failure_Header:
  "setup_failure (ETarNext (Some (Header h))) =
     (if Typeflag h = TypeDir \<or> Typeflag h = TypeReg \<or> Typeflag h = TypeSymlink then None
      else Some (Errorf ''unknown file type in tar: %c (%s)'' [ArgByte (Typeflag h), ArgString (Name h)]))"
  by (simp add: setup_failure_def)

lemma close_event_setup: "close_event d \<Longrightarrow> setup_event d \<and> setup_failure d = None"
  by (cases d) (simp_all add: close_event_def)

lemma close_event_simps [simp]: "close_event EGzipClose" "close_event (EFileClose p)"
  by (simp_all add: close_event_def)

lemma stretch_Nil [simp]: "stretch [] None"
  by (simp add: stretch_def)

lemma stretch_single: "setup_event ev \<Longrightarrow> setup_failure ev = r \<Longrightarrow> stretch [ev] r"
  by (simp add: stretch_def)

lemma stretch_quiet: "setup_event ev \<Longrightarrow> setup_failure ev = None \<Longrightarrow> stretch [ev] None"
  by (simp add: stretch_def)

lemma stretch_append:
  "stretch evs None \<Longrightarrow> stretch evs' r \<Longrightarrow> stretch (evs @ evs') r"
  by (auto simp: stretch_def)

lemma stretch_closes:
  assumes "stretch evs r" "\<forall>d \<in> set ds. close_event d"
  shows "stretch (evs @ ds) r"
  using assms close_event_setup unfolding stretch_def by auto

lemma stretch_no_failure: "stretch evs None \<Longrightarrow> ev \<in> set evs \<Longrightarrow> setup_failure ev = None"
  by (auto simp: stretch_def)

lemma extract_entry_dir:
  assumes "Typeflag h = TypeDir"
  shows "extract_entry E h w ds =
     (os_MkdirAll E (trace w) (filepath_Join E ''./'' (Name h)) (ucast (Mode h)),
      emit (EMkdirAll (filepath_Join E ''./'' (Name h)) (ucast (Mode h))
              (os_MkdirAll E (trace w) (filepath_Join E ''./'' (Name h)) (ucast (Mode h)))) w, ds)"
  using assms by (simp add: extract_entry_def Let_def)

lemma extract_entry_symlink:
  assumes "Typeflag h = TypeSymlink"
  shows "extract_entry E h w ds =
     (os_Symlink E (trace w) (Linkname h) (filepath_Join E ''./'' (Name h)),
      emit (ESymlink (Linkname h) (filepath_Join E ''./'' (Name h))
              (os_Symlink E (trace w) (Linkname h) (filepath_Join E ''./'' (Name h)))) w, ds)"
  using assms by (simp add: extract_entry_def Let_def TypeDir_def TypeReg_def TypeSymlink_def)

lemma extract_entry_unknown:
  assumes "Typeflag h \<noteq> TypeDir" "Typeflag h \<noteq> TypeReg" "Typeflag h \<noteq> TypeSymlink"
  shows "extract_entry E h w ds =
     (Some (Errorf ''unknown file type in tar: %c (%s)'' [ArgByte (Typeflag h), ArgString (Name h)]), w, ds)"
  using assms by (simp add: extract_entry_def Let_def)

lemma extract_entry_reg:
  assumes "Typeflag h = TypeReg"
  shows "\<exists>evs r ds'. extract_entry E h w ds = (r, w\<lparr>trace := trace w @ evs\<rparr>, ds')
      \<and> stretch evs r \<and> (\<forall>ev \<in> set evs. extraction_event ev)
      \<and> (ds' = ds \<or> ds' = EFileClose (filepath_Join E ''./'' (Name h)) # ds)"
proof -
  let ?dest = "filepath_Join E ''./'' (Name h)"
  let ?dir = "filepath_Dir E ?dest"
  let ?m = "ucast (Mode h) :: 32 word"
  let ?e1 = "os_MkdirAll E (trace w) ?dir ?m"
  let ?w1 = "emit (EMkdirAll ?dir ?m ?e1) w"
  let ?e2 = "os_Create E (trace ?w1) ?dest"
  let ?w2 = "emit (ECreate ?dest ?e2) ?w1"
  let ?e3 = "io_Copy E (trace ?w2) ?dest"
  let ?w3 = "emit (ECopy ?dest ?e3) ?w2"
  have notdir: "Typeflag h \<noteq> TypeDir" using assms by (simp add: TypeDir_def TypeReg_def)
  show ?thesis
  proof (cases ?e1)
    case (Some e)
    then have "extract_entry E h w ds = (?e1, w\<lparr>trace := trace w @ [EMkdirAll ?dir ?m ?e1]\<rparr>, ds)"
      using assms notdir by (simp add: extract_entry_def Let_def emit_def)
    moreover have "stretch [EMkdirAll ?dir ?m ?e1] ?e1" by (simp add: stretch_single)
    ultimately show ?thesis by (fastforce simp: extraction_event_def)
  next
    case None
    note e1 = this
    show ?thesis
    proof (cases ?e2)
      case (Some e)
      then have "extract_entry E h w ds =
          (?e2, w\<lparr>trace := trace w @ [EMkdirAll ?dir ?m None, ECreate ?dest ?e2]\<rparr>, ds)"
        using assms notdir e1 by (simp add: extract_entry_def Let_def emit_def)
      moreover have "stretch [EMkdirAll ?dir ?m None, ECreate ?dest ?e2] ?e2"
        by (simp add: stretch_def)
      ultimately show ?thesis by (fastforce simp: extraction_event_def)
    next
      case None
      then have "extract_entry E h w ds =
          (?e3, w\<lparr>trace := trace w @ [EMkdirAll ?dir ?m None, ECreate ?dest None, ECopy ?dest ?e3]\<rparr>,
           EFileClose ?dest # ds)"
        using assms notdir e1 by (simp add: extract_entry_def Let_def emit_def)
      moreover have "stretch [EMkdirAll ?dir ?m None, ECreate ?dest None, ECopy ?dest ?e3] ?e3"
        by (simp add: stretch_def)
      ultimately show ?thesis by (fastforce simp: extraction_event_def)
    qed
  qed
qed

lemma extract_entry_events:
  "\<exists>evs r ds'. extract_entry E h (emit (ETarNext (Some (Header h))) w) ds
        = (r, w\<lparr>trace := trace w @ ETarNext (Some (Header h)) # evs\<rparr>, ds')
      \<and> stretch (ETarNext (Some (Header h)) # evs) r
      \<and> (\<forall>ev \<in> set evs. extraction_event ev)
      \<and> (ds' = ds \<or> (\<exists>p. ds' = EFileClose p # ds))"
proof -
  let ?w0 = "emit (ETarNext (Some (Header h))) w"
  let ?hd = "ETarNext (Some (Header h))"
  consider (dir) "Typeflag h = TypeDir" | (reg) "Typeflag h = TypeReg"
    | (sym) "Typeflag h = TypeSymlink"
    | (unk) "Typeflag h \<noteq> TypeDir" "Typeflag h \<noteq> TypeReg" "Typeflag h \<noteq> TypeSymlink"
    by blast
  then show ?thesis
  proof cases
    case dir
    show ?thesis
      apply (simp add: extract_entry_dir [OF dir] emit_def)
      apply (rule exI [of _ "[EMkdirAll (filepath_Join E ''./'' (Name h)) (ucast (Mode h))
          (os_MkdirAll E (trace w @ [?hd]) (filepath_Join E ''./'' (Name h)) (ucast (Mode h)))]"])
      apply (simp add: stretch_def setup_failure_Header dir extraction_event_def)
      done
  next
    case sym
    show ?thesis
      apply (simp add: extract_entry_symlink [OF sym] emit_def)
      apply (rule exI [of _ "[ESymlink (Linkname h) (filepath_Join E ''./'' (Name h))
          (os_Symlink E (trace w @ [?hd]) (Linkname h) (filepath_Join E ''./'' (Name h)))]"])
      apply (simp add: stretch_def setup_failure_Header sym extraction_event_def)
      done
  next
    case unk
    show ?thesis
      apply (simp add: extract_entry_unknown [OF unk] emit_def)
      apply (rule exI [of _ "[]"])
      apply (simp add: stretch_def setup_failure_Header unk)
      done
  next
    case reg
    from extract_entry_reg [OF reg, of E ?w0 ds]
    obtain evs r ds' where 1: "extract_entry E h ?w0 ds = (r, ?w0\<lparr>trace := trace ?w0 @ evs\<rparr>, ds')"
      and 2: "stretch evs r" and 3: "\<forall>ev \<in> set evs. extraction_event ev"
      and 4: "ds' = ds \<or> ds' = EFileClose (filepath_Join E ''./'' (Name h)) # ds"
      by blast
    have "stretch [?hd] None" by (simp add: stretch_def setup_failure_Header reg)
    from stretch_append [OF this 2] have "stretch (?hd # evs) r" by simp
    with 1 3 4 show ?thesis by (auto simp: emit_def)
  qed
qed

lemma world_trace_twice [simp]:
  "(w\<lparr>trace := trace w @ evs\<rparr>)\<lparr>trace := trace (w\<lparr>trace := trace w @ evs\<rparr>) @ evs'\<rparr>
     = (w :: world)\<lparr>trace := trace w @ evs @ evs'\<rparr>"
  by simp

lemma extract_loop_events:
  assumes "\<forall>d \<in> set ds. close_event d"
  shows "\<exists>evs r ds'. extract_loop E items w ds = (r, w\<lparr>trace := trace w @ evs\<rparr>, ds')
      \<and> stretch evs r \<and> (\<forall>ev \<in> set evs. extraction_event ev) \<and> (\<forall>d \<in> set ds'. close_event d)"
  using assms
proof (induction items arbitrary: w ds)
  case Nil
  show ?case
    apply (simp add: emit_def)
    apply (rule exI [of _ "[ETarNext None]"])
    apply (simp add: stretch_def extraction_event_def Nil)
    done
next
  case (Cons it items)
  show ?case
  proof (cases it)
    case (NextError err)
    show ?thesis
      apply (simp add: NextError emit_def)
      apply (rule exI [of _ "[ETarNext (Some (NextError err))]"])
      apply (simp add: stretch_def extraction_event_def Cons.prems)
      done
  next
    case (Header h)
    let ?hd = "ETarNext (Some (Header h))"
    from extract_entry_events [of E h w ds]
    obtain evs0 r0 ds0 where
      e: "extract_entry E h (emit ?hd w) ds = (r0, w\<lparr>trace := trace w @ ?hd # evs0\<rparr>, ds0)"
      and s0: "stretch (?hd # evs0) r0" and n0: "\<forall>ev \<in> set evs0. extraction_event ev"
      and d0: "ds0 = ds \<or> (\<exists>p. ds0 = EFileClose p # ds)"
      by blast
    from d0 Cons.prems have c0: "\<forall>d \<in> set ds0. close_event d" by auto
    show ?thesis
    proof (cases r0)
      case (Some err)
      with e Header have "extract_loop E (it # items) w ds = (r0, w\<lparr>trace := trace w @ ?hd # evs0\<rparr>, ds0)"
        by simp
      with s0 n0 c0 show ?thesis
        by (intro exI [of _ "?hd # evs0"] exI [of _ r0] exI [of _ ds0]) (simp add: extraction_event_def)
    next
      case None
      let ?w0 = "w\<lparr>trace := trace w @ ?hd # evs0\<rparr>"
      from Cons.IH [OF c0, of ?w0]
      obtain evs r ds' where 1: "extract_loop E items ?w0 ds0 = (r, ?w0\<lparr>trace := trace ?w0 @ evs\<rparr>, ds')"
        and 2: "stretch evs r" and 3: "\<forall>ev \<in> set evs. extraction_event ev"
        and 4: "\<forall>d \<in> set ds'. close_event d"
        by blast
      from e Header None 1
      have "extract_loop E (it # items) w ds = (r, w\<lparr>trace := trace w @ (?hd # evs0) @ evs\<rparr>, ds')"
        by simp
      moreover from s0 None 2 have "stretch ((?hd # evs0) @ evs) r"
        using stretch_append [of "?hd # evs0" evs r] by simp
      moreover from n0 3 have "\<forall>ev \<in> set ((?hd # evs0) @ evs). extraction_event ev"
        by (auto simp: extraction_event_def)
      ultimately show ?thesis using 4 by blast
    qed
  qed
qed

lemma extract_if_absent_present:
  assumes "os_Stat E (trace w) ''./tmp/pglite/base/PG_VERSION'' = None"
  shows "extract_if_absent E w =
     (None, w\<lparr>trace := trace w @ [EStat ''./tmp/pglite/base/PG_VERSION'' None]\<rparr>, [])"
  using assms by (simp add: extract_if_absent_def Let_def emit_def)

lemma extract_if_absent_events:
  "\<exists>evs r ds. extract_if_absent E w = (r, w\<lparr>trace := trace w @ evs\<rparr>, ds)
      \<and> stretch evs r \<and> (\<forall>ev \<in> set evs. extraction_event ev) \<and> (\<forall>d \<in> set ds. close_event d)"
proof (cases "os_Stat E (trace w) ''./tmp/pglite/base/PG_VERSION''")
  case None
  show ?thesis
    apply (simp add: extract_if_absent_present [OF None])
    apply (rule exI [of _ "[EStat ''./tmp/pglite/base/PG_VERSION'' None]"])
    apply (simp add: stretch_def extraction_event_def)
    done
next
  case (Some serr)
  let ?pre = "[EStat ''./tmp/pglite/base/PG_VERSION'' (Some serr), EPrintln ''Extracting env....'',
               EGzipNewReader (gzip_result E)]"
  let ?w3 = "w\<lparr>trace := trace w @ ?pre\<rparr>"
  show ?thesis
  proof (cases "gzip_result E")
    case (Some gerr)
    then have "extract_if_absent E w = (gzip_result E, ?w3, [])"
      using \<open>os_Stat E (trace w) ''./tmp/pglite/base/PG_VERSION'' = Some serr\<close>
      by (simp add: extract_if_absent_def Let_def emit_def)
    moreover have "stretch ?pre (gzip_result E)" by (simp add: stretch_def)
    moreover have "\<forall>ev \<in> set ?pre. extraction_event ev" by (simp add: extraction_event_def)
    ultimately show ?thesis by fastforce
  next
    case None
    then have 0: "extract_if_absent E w = extract_loop E (tar_stream E) ?w3 [EGzipClose]"
      using \<open>os_Stat E (trace w) ''./tmp/pglite/base/PG_VERSION'' = Some serr\<close>
      by (simp add: extract_if_absent_def Let_def emit_def)
    have "\<forall>d \<in> set [EGzipClose]. close_event d" by simp
    from extract_loop_events [OF this, of E "tar_stream E" ?w3]
    obtain evs r ds' where 1: "extract_loop E (tar_stream E) ?w3 [EGzipClose] = (r, ?w3\<lparr>trace := trace ?w3 @ evs\<rparr>, ds')"
      and 2: "stretch evs r" and 3: "\<forall>ev \<in> set evs. extraction_event ev"
      and 4: "\<forall>d \<in> set ds'. close_event d"
      by blast
    from 0 1 have "extract_if_absent E w = (r, w\<lparr>trace := trace w @ ?pre @ evs\<rparr>, ds')" by simp
    moreover have "stretch ?pre None" using None by (simp add: stretch_def)
    from this 2 have "stretch (?pre @ evs) r" by (rule stretch_append)
    moreover from 3 have "\<forall>ev \<in> set (?pre @ evs). extraction_event ev" by (simp add: extraction_event_def)
    ultimately show ?thesis using 4 by blast
  qed
qed

lemma leaves_tree_alone_simps:
  "leaves_tree_alone []"
  "leaves_tree_alone (ev # evs) = (\<not> reads_archive ev \<and>
        (case written_path ev of None \<Rightarrow> True | Some p \<Rightarrow> p = ''./dev'' \<or> p = ''./dev/urandom'')
        \<and> leaves_tree_alone evs)"
  "leaves_tree_alone (evs @ evs') = (leaves_tree_alone evs \<and> leaves_tree_alone evs')"
  by (auto simp: leaves_tree_alone_def)

lemma close_leaves_tree_alone:
  "\<forall>d \<in> set ds. close_event d \<Longrightarrow> leaves_tree_alone ds"
proof -
  have "close_event d \<Longrightarrow> \<not> reads_archive d \<and> written_path d = None" for d
    by (cases d) (simp_all add: close_event_def reads_archive_def written_path_def)
  then show "\<forall>d \<in> set ds. close_event d \<Longrightarrow> leaves_tree_alone ds"
    by (auto simp: leaves_tree_alone_def)
qed

lemma setup_dev_events:
  "\<exists>evs res ds'. setup_dev E w ds = (res, w\<lparr>trace := trace w @ evs\<rparr>, ds')
      \<and> stretch evs (snd res) \<and> (ds' = ds \<or> ds' = EFileClose ''./dev/urandom'' # ds)
      \<and> leaves_tree_alone evs
      \<and> (no_failure_before_read evs \<longrightarrow>
           (\<exists>rng. evs = shim_events rng (fst res) (snd res) \<and> length rng = 128
              \<and> ds' = EFileClose ''./dev/urandom'' # ds))"
proof -
  let ?e1 = "os_MkdirAll E (trace w) ''./dev'' 0x1ED"
  let ?ev1 = "EMkdirAll ''./dev'' 0x1ED ?e1"
  let ?e2 = "os_Create E (trace w @ [?ev1]) ''./dev/urandom''"
  let ?ev2 = "ECreate ''./dev/urandom'' ?e2"
  let ?rd = "rand_Read E (trace w @ [?ev1, ?ev2]) 128"
  let ?rng = "take 128 (fst ?rd @ replicate 128 0)"
  let ?ev3 = "ERandRead 128 ?rng (snd ?rd)"
  let ?ev4 = "EFileWrite ''./dev/urandom'' ?rng"
  let ?rf = "os_ReadFile E (trace w @ [?ev1, ?ev2, ?ev3, ?ev4]) ''./tmp/pglite/bin/postgres.wasi''"
  let ?ev5 = "EReadFile ''./tmp/pglite/bin/postgres.wasi'' (fst ?rf) (snd ?rf)"
  have tree: "leaves_tree_alone [?ev1, ?ev2, ?ev3, ?ev4, ?ev5]"
    by (simp add: leaves_tree_alone_def reads_archive_def written_path_def)
  show ?thesis
  proof (cases ?e1)
    case (Some e)
    then have "setup_dev E w ds = (([], ?e1), w\<lparr>trace := trace w @ [?ev1]\<rparr>, ds)"
      by (simp add: setup_dev_def Let_def emit_def)
    moreover have "stretch [?ev1] ?e1" by (simp add: stretch_def)
    moreover have "leaves_tree_alone [?ev1]"
      by (simp add: leaves_tree_alone_def reads_archive_def written_path_def)
    moreover have "\<not> no_failure_before_read [?ev1]"
      using Some by (simp add: no_failure_before_read_def not_read_file_def)
    ultimately show ?thesis by fastforce
  next
    case None
    note e1 = this
    show ?thesis
    proof (cases ?e2)
      case (Some e)
      then have "setup_dev E w ds = (([], ?e2), w\<lparr>trace := trace w @ [?ev1, ?ev2]\<rparr>, ds)"
        using e1 by (simp add: setup_dev_def Let_def emit_def)
      moreover have "stretch [?ev1, ?ev2] ?e2" using e1 by (simp add: stretch_def)
      moreover have "leaves_tree_alone [?ev1, ?ev2]"
        by (simp add: leaves_tree_alone_def reads_archive_def written_path_def)
      moreover have "\<not> no_failure_before_read [?ev1, ?ev2]"
        using Some by (simp add: no_failure_before_read_def not_read_file_def)
      ultimately show ?thesis by fastforce
    next
      case None
      note e2 = this
      show ?thesis
      proof (cases "snd ?rd")
        case (Some e)
        then have "setup_dev E w ds =
            (([], snd ?rd), w\<lparr>trace := trace w @ [?ev1, ?ev2, ?ev3]\<rparr>, EFileClose ''./dev/urandom'' # ds)"
          using e1 e2 by (simp add: setup_dev_def Let_def emit_def)
        moreover have "stretch [?ev1, ?ev2, ?ev3] (snd ?rd)" using e1 e2 by (simp add: stretch_def)
        moreover have "leaves_tree_alone [?ev1, ?ev2, ?ev3]"
          by (simp add: leaves_tree_alone_def reads_archive_def written_path_def)
        moreover have "\<not> no_failure_before_read [?ev1, ?ev2, ?ev3]"
          using Some by (simp add: no_failure_before_read_def not_read_file_def)
        ultimately show ?thesis by fastforce
      next
        case None
        then have "setup_dev E w ds =
            (?rf, w\<lparr>trace := trace w @ [?ev1, ?ev2, ?ev3, ?ev4, ?ev5]\<rparr>, EFileClose ''./dev/urandom'' # ds)"
          using e1 e2 by (simp add: setup_dev_def Let_def emit_def)
        moreover have "stretch [?ev1, ?ev2, ?ev3, ?ev4, ?ev5] (snd ?rf)"
          using e1 e2 None by (simp add: stretch_def)
        moreover have "[?ev1, ?ev2, ?ev3, ?ev4, ?ev5] = shim_events ?rng (fst ?rf) (snd ?rf)"
          using e1 e2 None by (simp add: shim_events_def)
        moreover have "length ?rng = 128" by simp
        ultimately show ?thesis using tree by fastforce
      qed
    qed
  qed
qed

lemma extraction_event_not_read_file: "extraction_event ev \<Longrightarrow> not_read_file ev"
  by (cases ev) (simp_all add: extraction_event_def not_read_file_def)

lemma file_writes_simps [simp]:
  "file_writes [] = []"
  "file_writes (evs @ evs') = file_writes evs @ file_writes evs'"
  by (simp_all add: file_writes_def)

lemma file_writes_extraction:
  "\<forall>ev \<in> set evs. extraction_event ev \<Longrightarrow> file_writes evs = []"
proof (induction evs)
  case Nil
  show ?case by simp
next
  case (Cons ev evs)
  then have "extraction_event ev" and "file_writes evs = []" by simp_all
  then show ?case
    by (cases ev) (simp_all add: file_writes_def extraction_event_def)
qed

lemma file_writes_closes:
  "\<forall>d \<in> set ds. close_event d \<Longrightarrow> file_writes ds = []"
proof (induction ds)
  case Nil
  show ?case by simp
next
  case (Cons d ds)
  then have "close_event d" and "file_writes ds = []" by simp_all
  then show ?case
    by (cases d) (simp_all add: file_writes_def close_event_def)
qed

lemma file_writes_shim: "file_writes (shim_events rng blob err) = [(''./dev/urandom'', rng)]"
  by (simp add: shim_events_def file_writes_def)

lemma no_failure_before_read_append:
  "no_failure_before_read (evs @ evs') = (no_failure_before_read evs \<and> no_failure_before_read evs')"
  by (simp add: no_failure_before_read_def ball_Un)

lemma stretch_extraction_no_failure:
  assumes "stretch evs r" "\<forall>ev \<in> set evs. extraction_event ev" "no_failure_before_read evs"
  shows "r = None"
proof (rule ccontr)
  assume "r \<noteq> None"
  with assms(1) have "r \<in> setup_failure ` set evs"
    unfolding stretch_def by blast
  then obtain ev where ev: "ev \<in> set evs" "r = setup_failure ev"
    by blast
  from ev(1) assms(2) have "not_read_file ev"
    by (blast dest: extraction_event_not_read_file)
  moreover from ev(1) assms(3) have "setup_failure ev = None \<or> \<not> not_read_file ev"
    unfolding no_failure_before_read_def by blast
  ultimately show False using ev(2) \<open>r \<noteq> None\<close> by simp
qed

text \<open>The events of one run of \<open>setupEnv\<close>.\<close>

lemma setupEnv_events:
  "\<exists>evs. setupEnv E w = (fst (setupEnv E w), w\<lparr>trace := trace w @ evs\<rparr>)
      \<and> stretch evs (snd (fst (setupEnv E w)))
      \<and> (os_Stat E (trace w) ''./tmp/pglite/base/PG_VERSION'' = None \<longrightarrow>
           (\<exists>rest. evs = EStat ''./tmp/pglite/base/PG_VERSION'' None # rest \<and> leaves_tree_alone rest))
      \<and> (no_failure_before_read evs \<longrightarrow>
           (\<exists>pre rng post. evs = pre @ shim_events rng (fst (fst (setupEnv E w))) (snd (fst (setupEnv E w)))
                @ EFileClose ''./dev/urandom'' # post
              \<and> length rng = 128 \<and> file_writes evs = [(''./dev/urandom'', rng)]))"
proof -
  let ?M = "''./tmp/pglite/base/PG_VERSION''"
  from extract_if_absent_events [of E w]
  obtain evs1 r1 ds1 where x: "extract_if_absent E w = (r1, w\<lparr>trace := trace w @ evs1\<rparr>, ds1)"
    and s1: "stretch evs1 r1" and n1: "\<forall>ev \<in> set evs1. extraction_event ev"
    and c1: "\<forall>d \<in> set ds1. close_event d"
    by blast
  have present: "evs1 = [EStat ?M None] \<and> ds1 = [] \<and> r1 = None" if "os_Stat E (trace w) ?M = None"
    using x extract_if_absent_present [OF that] by (auto dest: arg_cong [where f = trace])
  show ?thesis
  proof (cases r1)
    case (Some err)
    with x have res: "setupEnv E w = (([], Some err), w\<lparr>trace := trace w @ evs1 @ ds1\<rparr>)"
      by (simp add: setupEnv_def run_deferred_def)
    have st: "stretch (evs1 @ ds1) (Some err)"
      using s1 Some c1 by (auto intro: stretch_closes)
    have nf: "\<not> no_failure_before_read (evs1 @ ds1)"
      using stretch_extraction_no_failure [OF s1 n1] Some
      by (auto simp: no_failure_before_read_append)
    have np: "os_Stat E (trace w) ?M \<noteq> None" using present Some by auto
    from res st nf np show ?thesis
      by (intro exI [of _ "evs1 @ ds1"]) auto
  next
    case None
    let ?w1 = "w\<lparr>trace := trace w @ evs1\<rparr>"
    from setup_dev_events [of E ?w1 ds1]
    obtain evs2 res ds2 where d: "setup_dev E ?w1 ds1 = (res, ?w1\<lparr>trace := trace ?w1 @ evs2\<rparr>, ds2)"
      and s2: "stretch evs2 (snd res)"
      and c2: "ds2 = ds1 \<or> ds2 = EFileClose ''./dev/urandom'' # ds1"
      and t2: "leaves_tree_alone evs2"
      and h2: "no_failure_before_read evs2 \<longrightarrow>
           (\<exists>rng. evs2 = shim_events rng (fst res) (snd res) \<and> length rng = 128
              \<and> ds2 = EFileClose ''./dev/urandom'' # ds1)"
      by blast
    from x None d have res: "setupEnv E w = (res, w\<lparr>trace := trace w @ evs1 @ evs2 @ ds2\<rparr>)"
      by (simp add: setupEnv_def run_deferred_def)
    from c1 c2 have c: "\<forall>d \<in> set ds2. close_event d" by auto
    have st: "stretch (evs1 @ evs2 @ ds2) (snd res)"
      using stretch_closes [OF stretch_append [OF _ s2] c, of evs1] s1 None by simp
    have p: "\<exists>rest. evs1 @ evs2 @ ds2 = EStat ?M None # rest \<and> leaves_tree_alone rest"
      if "os_Stat E (trace w) ?M = None"
      using present [OF that] t2 close_leaves_tree_alone [OF c]
      by (simp add: leaves_tree_alone_simps)
    have q: "\<exists>pre rng post. evs1 @ evs2 @ ds2 = pre @ shim_events rng (fst res) (snd res)
                @ EFileClose ''./dev/urandom'' # post
              \<and> length rng = 128 \<and> file_writes (evs1 @ evs2 @ ds2) = [(''./dev/urandom'', rng)]"
      if "no_failure_before_read (evs1 @ evs2 @ ds2)"
    proof -
      from that have "no_failure_before_read evs2" by (simp add: no_failure_before_read_append)
      with h2 obtain rng where r: "evs2 = shim_events rng (fst res) (snd res)" "length rng = 128"
        "ds2 = EFileClose ''./dev/urandom'' # ds1"
        by blast
      have "file_writes (evs1 @ evs2 @ ds2) = [(''./dev/urandom'', rng)]"
        using file_writes_extraction [OF n1] file_writes_closes [OF c] r(1)
        by (simp add: file_writes_shim)
      with r show ?thesis by (intro exI [of _ evs1] exI [of _ rng] exI [of _ ds1]) simp
    qed
    from res st p q show ?thesis
      by (intro exI [of _ "evs1 @ evs2 @ ds2"]) auto
  qed
qed




lemma setupEnv_since:
  "trace (snd (setupEnv E w)) = trace w @ events_since w (snd (setupEnv E w))"
  "memories (snd (setupEnv E w)) = memories w"
  "stretch (events_since w (snd (setupEnv E w))) (snd (fst (setupEnv E w)))"
  "os_Stat E (trace w) ''./tmp/pglite/base/PG_VERSION'' = None \<Longrightarrow>
     \<exists>rest. events_since w (snd (setupEnv E w)) = EStat ''./tmp/pglite/base/PG_VERSION'' None # rest
        \<and> leaves_tree_alone rest"
  "no_failure_before_read (events_since w (snd (setupEnv E w))) \<Longrightarrow>
     \<exists>pre rng post. events_since w (snd (setupEnv E w)) =
          pre @ shim_events rng (fst (fst (setupEnv E w))) (snd (fst (setupEnv E w)))
            @ EFileClose ''./dev/urandom'' # post
        \<and> length rng = 128
        \<and> file_writes (events_since w (snd (setupEnv E w))) = [(''./dev/urandom'', rng)]"
proof -
  from setupEnv_events [of E w]
  obtain evs where eq: "setupEnv E w = (fst (setupEnv E w), w\<lparr>trace := trace w @ evs\<rparr>)"
    and st: "stretch evs (snd (fst (setupEnv E w)))"
    and pr: "os_Stat E (trace w) ''./tmp/pglite/base/PG_VERSION'' = None \<longrightarrow>
           (\<exists>rest. evs = EStat ''./tmp/pglite/base/PG_VERSION'' None # rest \<and> leaves_tree_alone rest)"
    and sh: "no_failure_before_read evs \<longrightarrow>
           (\<exists>pre rng post. evs = pre @ shim_events rng (fst (fst (setupEnv E w))) (snd (fst (setupEnv E w)))
                @ EFileClose ''./dev/urandom'' # post
              \<and> length rng = 128 \<and> file_writes evs = [(''./dev/urandom'', rng)])"
    by (elim exE conjE) (rule that, assumption+)
  from arg_cong [OF eq, of snd] have w': "snd (setupEnv E w) = w\<lparr>trace := trace w @ evs\<rparr>"
    by simp
  then have ev: "events_since w (snd (setupEnv E w)) = evs"
    by (simp add: events_since_def)
  show "trace (snd (setupEnv E w)) = trace w @ events_since w (snd (setupEnv E w))"
    by (simp add: ev) (simp add: w')
  show "memories (snd (setupEnv E w)) = memories w"
    by (simp add: w')
  show "stretch (events_since w (snd (setupEnv E w))) (snd (fst (setupEnv E w)))"
    using st by (simp only: ev)
  show "\<exists>rest. events_since w (snd (setupEnv E w)) = EStat ''./tmp/pglite/base/PG_VERSION'' None # rest
        \<and> leaves_tree_alone rest"
    if "os_Stat E (trace w) ''./tmp/pglite/base/PG_VERSION'' = None"
    using pr that by (simp only: ev)
  show "\<exists>pre rng post. events_since w (snd (setupEnv E w)) =
          pre @ shim_events rng (fst (fst (setupEnv E w))) (snd (fst (setupEnv E w)))
            @ EFileClose ''./dev/urandom'' # post
        \<and> length rng = 128
        \<and> file_writes (events_since w (snd (setupEnv E w))) = [(''./dev/urandom'', rng)]"
    if "no_failure_before_read (events_since w (snd (setupEnv E w)))"
    using sh that by (simp only: ev)
qed


section \<open>setupEnv: the marker and the second run\<close>










section \<open>NewPGLite: the events of a run\<close>

lemma call_exported_nil: "call_exported E None name w = (Panicked, w)"
  by (simp add: call_exported_def)

lemma call_exported_missing:
  "\<not> ExportedFunction E m name \<Longrightarrow> call_exported E (Some m) name w = (Panicked, w)"
  by (simp add: call_exported_def)

lemma call_exported_cases:
  obtains (panic) "call_exported E mo name w = (Panicked, w)"
      "mo = None \<or> (\<exists>m. mo = Some m \<and> \<not> ExportedFunction E m name)"
  | (returned) m rv err w' where "mo = Some m" "ExportedFunction E m name"
      "call_exported E mo name w = (Returned (rv, err), w')"
      "trace w' = trace w @ [ECall m name (memories w m) rv err]"
      "\<forall>m'. (memories w' m' = None) = (memories w m' = None)"
proof (cases mo)
  case None
  then show ?thesis using panic by (simp add: call_exported_nil)
next
  case (Some m)
  show ?thesis
  proof (cases "ExportedFunction E m name")
    case False
    with Some show ?thesis using panic by (simp add: call_exported_missing)
  next
    case True
    let ?res = "fn_Call E (trace w) m name (memories w m)"
    let ?w' = "snd (call_exported E (Some m) name w)"
    have 1: "call_exported E mo name w = (Returned (fst (fst ?res), snd (fst ?res)), ?w')"
      using Some by (simp add: call_exported_run [OF True])
    have 2: "trace ?w' = trace w @ [ECall m name (memories w m) (fst (fst ?res)) (snd (fst ?res))]"
      by (simp add: call_exported_run [OF True] split: option.split)
    have 3: "\<forall>m'. (memories ?w' m' = None) = (memories w m' = None)"
      by (simp add: call_exported_run [OF True] split: option.split)
    from returned [OF Some True 1 2 3] show ?thesis .
  qed
qed

lemma Fprintf_cases:
  obtains (panic) "wr = None" "Fprintf wr f args w = (Panicked, w)"
  | (returned) out where "wr = Some out" "Fprintf wr f args w = (Returned (), emit (EFprintf out f args) w)"
  by (cases wr) (simp_all add: Fprintf_def)


lemma init_handshake_cases:
  obtains
    (no_initdb) "fst (init_handshake E r p w) = Panicked"
      "trace (snd (init_handshake E r p w)) = trace w @ []"
      "mod' p = None \<or> (\<exists>m. mod' p = Some m \<and> \<not> ExportedFunction E m ''pg_initdb'')"
  | (initdb_failed) m rv e where "mod' p = Some m" "ExportedFunction E m ''pg_initdb''"
      "fst (init_handshake E r p w) = Returned (None, Some (Errorf ''pg_initdb: %w'' [ArgErr e]))"
      "trace (snd (init_handshake E r p w)) = trace w @
         [ECall m ''pg_initdb'' (memories w m) rv (Some e), ERuntimeClose r]"
  | (no_stderr) m rv where "mod' p = Some m" "ExportedFunction E m ''pg_initdb''" "stderr p = None"
      "fst (init_handshake E r p w) = Panicked"
      "trace (snd (init_handshake E r p w)) = trace w @ [ECall m ''pg_initdb'' (memories w m) rv None]"
  | (no_socketfile) m rv out where "mod' p = Some m" "ExportedFunction E m ''pg_initdb''"
      "\<not> ExportedFunction E m ''use_socketfile''"
      "fst (init_handshake E r p w) = Panicked"
      "trace (snd (init_handshake E r p w)) = trace w @
         [ECall m ''pg_initdb'' (memories w m) rv None,
          EFprintf out ''initdb returned: %b\<newline>'' [ArgUint64s rv]]"
  | (socketfile_failed) m rv out mem2 rv2 e where "mod' p = Some m" "ExportedFunction E m ''pg_initdb''"
      "fst (init_handshake E r p w) = Returned (None, Some (Errorf ''use_socketfile: %w'' [ArgErr e]))"
      "trace (snd (init_handshake E r p w)) = trace w @
         [ECall m ''pg_initdb'' (memories w m) rv None,
          EFprintf out ''initdb returned: %b\<newline>'' [ArgUint64s rv],
          ECall m ''use_socketfile'' mem2 rv2 (Some e), ERuntimeClose r]"
  | (ready) m rv out mem2 rv2 where "mod' p = Some m" "ExportedFunction E m ''pg_initdb''"
      "fst (init_handshake E r p w) = Returned (Some p, None)"
      "trace (snd (init_handshake E r p w)) = trace w @
         [ECall m ''pg_initdb'' (memories w m) rv None,
          EFprintf out ''initdb returned: %b\<newline>'' [ArgUint64s rv],
          ECall m ''use_socketfile'' mem2 rv2 None]"
      "\<forall>m'. (memories (snd (init_handshake E r p w)) m' = None) = (memories w m' = None)"
proof (cases rule: call_exported_cases [of E "mod' p" "''pg_initdb''" w])
  case panic
  then have "init_handshake E r p w = (Panicked, w)" by (simp add: init_handshake_def)
  then show ?thesis using no_initdb panic(2) by simp
next
  case (returned m rv err w5)
  note c1 = this
  show ?thesis
  proof (cases err)
    case (Some e)
    with c1 have "init_handshake E r p w =
        (Returned (None, Some (Errorf ''pg_initdb: %w'' [ArgErr e])), emit (ERuntimeClose r) w5)"
      by (simp add: init_handshake_def)
    then show ?thesis
      using initdb_failed [of m e rv] c1 Some by simp
  next
    case None
    note e1 = this
    show ?thesis
    proof (cases rule: Fprintf_cases [of "stderr p" "''initdb returned: %b\<newline>''" "[ArgUint64s rv]" w5])
      case panic
      with c1 e1 have "init_handshake E r p w = (Panicked, w5)"
        by (simp add: init_handshake_def)
      then show ?thesis
        using no_stderr [of m rv] c1 e1 panic(1) by simp
    next
      case (returned out)
      note f = this
      let ?w6 = "emit (EFprintf out ''initdb returned: %b\<newline>'' [ArgUint64s rv]) w5"
      show ?thesis
      proof (cases rule: call_exported_cases [of E "mod' p" "''use_socketfile''" ?w6])
        case panic
        with c1 e1 f have "init_handshake E r p w = (Panicked, ?w6)"
          by (simp add: init_handshake_def)
        moreover from panic(2) c1(1) have "\<not> ExportedFunction E m ''use_socketfile''" by simp
        ultimately show ?thesis
          using no_socketfile [of m rv out] c1 e1 by simp
      next
        case (returned m2 rv2 err2 w7)
        note c2 = this
        from c2(1) c1(1) have m2: "m2 = m" by simp
        show ?thesis
        proof (cases err2)
          case (Some e)
          with c1 e1 f c2 have "init_handshake E r p w =
              (Returned (None, Some (Errorf ''use_socketfile: %w'' [ArgErr e])), emit (ERuntimeClose r) w7)"
            by (simp add: init_handshake_def)
          then show ?thesis
            using socketfile_failed [of m e rv out "memories w5 m" rv2] c1 e1 c2 m2 Some
            by simp
        next
          case None
          with c1 e1 f c2 have "init_handshake E r p w = (Returned (Some p, None), w7)"
            by (simp add: init_handshake_def)
          then show ?thesis
            using ready [of m rv out "memories w5 m" rv2] c1 e1 c2 m2 None
            by simp
        qed
      qed
    qed
  qed
qed


lemma NewPGLite_setup_failed:
  assumes "snd (fst (setupEnv E w)) = Some e"
  shows "NewPGLite E c so se rtc w =
     (Returned (None, Some (Errorf ''setupEnv: %w'' [ArgErr e])), snd (setupEnv E w))"
proof -
  obtain blob w1 where "setupEnv E w = ((blob, Some e), w1)"
    using assms by (cases "setupEnv E w") auto
  then show ?thesis by (simp add: NewPGLite_def)
qed

lemma NewPGLite_cases:
  fixes w :: world and E :: env and so se :: "writer option"
  defines "w1 \<equiv> snd (setupEnv E w)"
  defines "blob \<equiv> fst (fst (setupEnv E w))"
  defines "cfg \<equiv> instantiate_config so se"
  obtains
    (setup_failed) e where "snd (fst (setupEnv E w)) = Some e"
      "NewPGLite E c so se rtc w = (Returned (None, Some (Errorf ''setupEnv: %w'' [ArgErr e])), w1)"
  | (wasi_panic) rc r e where "snd (fst (setupEnv E w)) = None"
      "fst (NewPGLite E c so se rtc w) = Panicked"
      "trace (snd (NewPGLite E c so se rtc w)) = trace w1 @ [ENewRuntime rc r, EWasiInstantiate (Some e)]"
  | (stopped) rc r mo ierr err where "snd (fst (setupEnv E w)) = None"
      "instantiate_failure ierr = Some err"
      "fst (NewPGLite E c so se rtc w) = Returned (None, Some err)"
      "trace (snd (NewPGLite E c so se rtc w)) = trace w1 @
         [ENewRuntime rc r, EWasiInstantiate None, EInstantiate blob cfg mo ierr, ERuntimeClose r]"
  | (handshake) rc r mo ierr w4 where "snd (fst (setupEnv E w)) = None"
      "instantiate_failure ierr = None"
      "trace w4 = trace w1 @ [ENewRuntime rc r, EWasiInstantiate None, EInstantiate blob cfg mo ierr]"
      "NewPGLite E c so se rtc w =
         init_handshake E r \<lparr>runtime = Some r, mod' = mo, ctx = c, stdout = so, stderr = se\<rparr> w4"
proof (cases "snd (fst (setupEnv E w))")
  case (Some e)
  from NewPGLite_setup_failed [OF Some] show ?thesis
    using setup_failed Some by (simp add: w1_def)
next
  case None
  then have seq: "setupEnv E w = ((blob, None), w1)"
    by (simp add: blob_def w1_def prod_eq_iff)
  let ?rc = "case rtc of Some c # _ \<Rightarrow> Some c | _ \<Rightarrow> None"
  let ?r = "wazero_NewRuntime E (trace w1) ?rc"
  let ?N = "ENewRuntime ?rc ?r"
  let ?werr = "wasi_Instantiate E (trace w1 @ [?N]) ?r"
  let ?W = "EWasiInstantiate ?werr"
  show ?thesis
  proof (cases ?werr)
    case (Some e)
    then have "NewPGLite E c so se rtc w = (Panicked, emit ?W (emit ?N w1))"
      using seq by (simp add: NewPGLite_def Let_def)
    then show ?thesis
      using wasi_panic [of ?rc ?r e] None Some by simp
  next
    case None
    note wn = this
    let ?inst = "rt_Instantiate E (trace w1 @ [?N, EWasiInstantiate None]) ?r blob cfg"
    let ?mo = "fst (fst ?inst)"
    let ?ierr = "snd (fst ?inst)"
    let ?I = "EInstantiate blob cfg ?mo ?ierr"
    show ?thesis
    proof (cases "instantiate_failure ?ierr")
      case (Some err)
      have "fst (NewPGLite E c so se rtc w) = Returned (None, Some err)"
        using seq wn Some by (simp add: NewPGLite_def Let_def cfg_def)
      moreover have "trace (snd (NewPGLite E c so se rtc w)) =
          trace w1 @ [?N, EWasiInstantiate None, ?I, ERuntimeClose ?r]"
        using seq wn Some by (simp add: NewPGLite_def Let_def cfg_def split: option.split)
      ultimately show ?thesis
        using stopped [of ?ierr err ?rc ?r ?mo] \<open>snd (fst (setupEnv E w)) = None\<close> Some
        by simp
    next
      case None
      have "\<exists>w4. trace w4 = trace w1 @ [?N, EWasiInstantiate None, ?I] \<and>
          NewPGLite E c so se rtc w =
            init_handshake E ?r \<lparr>runtime = Some ?r, mod' = ?mo, ctx = c, stdout = so, stderr = se\<rparr> w4"
        using seq wn None
        apply (simp add: NewPGLite_def Let_def cfg_def)
        apply (rule exI)
        apply (rule conjI [rotated])
         apply (rule refl)
        apply (simp split: option.split)
        done
      then obtain w4 where "trace w4 = trace w1 @ [?N, EWasiInstantiate None, ?I]"
        and "NewPGLite E c so se rtc w =
            init_handshake E ?r \<lparr>runtime = Some ?r, mod' = ?mo, ctx = c, stdout = so, stderr = se\<rparr> w4"
        by (elim exE conjE)
      then show ?thesis
        using handshake [of ?ierr w4 ?rc ?r ?mo] \<open>snd (fst (setupEnv E w)) = None\<close> None
        by simp
    qed
  qed
qed

text \<open>Every way in which \<open>NewPGLite\<close> can run, with what it returns and the events it adds
  after those of \<open>setupEnv\<close>.\<close>

lemma NewPGLite_runs:
  fixes w :: world and E :: env and so se :: "writer option" and c :: go_context
    and rtc :: "runtime_config option list"
  defines "w1 \<equiv> snd (setupEnv E w)"
  defines "blob \<equiv> fst (fst (setupEnv E w))"
  defines "cfg \<equiv> instantiate_config so se"
  defines "out \<equiv> fst (NewPGLite E c so se rtc w)"
  defines "tr \<equiv> trace (snd (NewPGLite E c so se rtc w))"
  obtains
    (setup_failed) e where "snd (fst (setupEnv E w)) = Some e"
      "out = Returned (None, Some (Errorf ''setupEnv: %w'' [ArgErr e]))" "tr = trace w1"
  | (wasi_panic) rc r e where "snd (fst (setupEnv E w)) = None" "out = Panicked"
      "tr = trace w1 @ [ENewRuntime rc r, EWasiInstantiate (Some e)]"
  | (stopped) rc r mo ierr err where "snd (fst (setupEnv E w)) = None"
      "instantiate_failure ierr = Some err" "out = Returned (None, Some err)"
      "tr = trace w1 @ [ENewRuntime rc r, EWasiInstantiate None, EInstantiate blob cfg mo ierr,
          ERuntimeClose r]"
  | (no_initdb) rc r mo ierr where "snd (fst (setupEnv E w)) = None"
      "instantiate_failure ierr = None" "out = Panicked"
      "mo = None \<or> (\<exists>m. mo = Some m \<and> \<not> ExportedFunction E m ''pg_initdb'')"
      "tr = trace w1 @ [ENewRuntime rc r, EWasiInstantiate None, EInstantiate blob cfg mo ierr]"
  | (initdb_failed) rc r m ierr mem rv e where "snd (fst (setupEnv E w)) = None"
      "instantiate_failure ierr = None" "ExportedFunction E m ''pg_initdb''"
      "out = Returned (None, Some (Errorf ''pg_initdb: %w'' [ArgErr e]))"
      "tr = trace w1 @ [ENewRuntime rc r, EWasiInstantiate None, EInstantiate blob cfg (Some m) ierr,
          ECall m ''pg_initdb'' mem rv (Some e), ERuntimeClose r]"
  | (no_stderr) rc r m ierr mem rv where "snd (fst (setupEnv E w)) = None"
      "instantiate_failure ierr = None" "ExportedFunction E m ''pg_initdb''" "se = None"
      "out = Panicked"
      "tr = trace w1 @ [ENewRuntime rc r, EWasiInstantiate None, EInstantiate blob cfg (Some m) ierr,
          ECall m ''pg_initdb'' mem rv None]"
  | (no_socketfile) rc r m ierr mem rv wr where "snd (fst (setupEnv E w)) = None"
      "instantiate_failure ierr = None" "ExportedFunction E m ''pg_initdb''"
      "\<not> ExportedFunction E m ''use_socketfile''" "out = Panicked"
      "tr = trace w1 @ [ENewRuntime rc r, EWasiInstantiate None, EInstantiate blob cfg (Some m) ierr,
          ECall m ''pg_initdb'' mem rv None,
          EFprintf wr ''initdb returned: %b\<newline>'' [ArgUint64s rv]]"
  | (socketfile_failed) rc r m ierr mem rv wr mem2 rv2 e where "snd (fst (setupEnv E w)) = None"
      "instantiate_failure ierr = None" "ExportedFunction E m ''pg_initdb''"
      "out = Returned (None, Some (Errorf ''use_socketfile: %w'' [ArgErr e]))"
      "tr = trace w1 @ [ENewRuntime rc r, EWasiInstantiate None, EInstantiate blob cfg (Some m) ierr,
          ECall m ''pg_initdb'' mem rv None,
          EFprintf wr ''initdb returned: %b\<newline>'' [ArgUint64s rv],
          ECall m ''use_socketfile'' mem2 rv2 (Some e), ERuntimeClose r]"
  | (ready) rc r m ierr mem rv wr mem2 rv2 where "snd (fst (setupEnv E w)) = None"
      "instantiate_failure ierr = None" "ExportedFunction E m ''pg_initdb''"
      "out = Returned (Some \<lparr>runtime = Some r, mod' = Some m, ctx = c, stdout = so, stderr = se\<rparr>, None)"
      "tr = trace w1 @ [ENewRuntime rc r, EWasiInstantiate None, EInstantiate blob cfg (Some m) ierr,
          ECall m ''pg_initdb'' mem rv None,
          EFprintf wr ''initdb returned: %b\<newline>'' [ArgUint64s rv],
          ECall m ''use_socketfile'' mem2 rv2 None]"
proof (cases rule: NewPGLite_cases [of E w c so se rtc])
  case (setup_failed e)
  then show ?thesis using that(1) [where e = e] by (simp add: out_def tr_def w1_def)
next
  case (wasi_panic rc r e)
  then show ?thesis using that(2) [where rc = rc and r = r and e = e] by (simp add: out_def tr_def w1_def)
next
  case (stopped rc r mo ierr err)
  then show ?thesis using that(3) [where ierr = ierr and err = err and rc = rc and r = r and mo = mo]
    by (simp add: out_def tr_def w1_def blob_def cfg_def)
next
  case (handshake rc r mo ierr w4)
  note h = this
  let ?p = "\<lparr>runtime = Some r, mod' = mo, ctx = c, stdout = so, stderr = se\<rparr>"
  show ?thesis
  proof (cases rule: init_handshake_cases [of E r ?p w4])
    case no_initdb
    then show ?thesis using that(4) [where ierr = ierr and mo = mo and rc = rc and r = r] h
      by (simp add: out_def tr_def w1_def blob_def cfg_def)
  next
    case (initdb_failed m rv e)
    then show ?thesis using that(5) [where ierr = ierr and m = m and e = e and rc = rc and r = r and mem = "memories w4 m" and rv = rv] h
      by (simp add: out_def tr_def w1_def blob_def cfg_def)
  next
    case (no_stderr m rv)
    then show ?thesis using that(6) [where ierr = ierr and m = m and rc = rc and r = r and mem = "memories w4 m" and rv = rv] h
      by (simp add: out_def tr_def w1_def blob_def cfg_def)
  next
    case (no_socketfile m rv wr)
    then show ?thesis using that(7) [where ierr = ierr and m = m and rc = rc and r = r and mem = "memories w4 m" and rv = rv and wr = wr] h
      by (simp add: out_def tr_def w1_def blob_def cfg_def)
  next
    case (socketfile_failed m rv wr mem2 rv2 e)
    then show ?thesis using that(8) [where ierr = ierr and m = m and e = e and rc = rc and r = r and mem = "memories w4 m" and rv = rv and wr = wr and ?mem2.0 = mem2 and ?rv2.0 = rv2] h
      by (simp add: out_def tr_def w1_def blob_def cfg_def)
  next
    case (ready m rv wr mem2 rv2)
    then show ?thesis using that(9) [where ierr = ierr and m = m and rc = rc and r = r and mem = "memories w4 m" and rv = rv and wr = wr and ?mem2.0 = mem2 and ?rv2.0 = rv2] h
      by (simp add: out_def tr_def w1_def blob_def cfg_def)
  qed
qed

lemma setup_events_only:
  "ev \<in> set (events_since w (snd (setupEnv E w))) \<Longrightarrow> setup_event ev"
  using setupEnv_since(3) [where E = E and w = w] unfolding stretch_def by blast

lemma setup_failure_in_run:
  assumes "ev \<in> set (events_since w (snd (setupEnv E w)))" "setup_failure ev = Some e"
  shows "snd (fst (setupEnv E w)) = Some e"
proof -
  from setupEnv_since(3) [where E = E and w = w] assms(1)
  have "setup_failure ev \<noteq> None \<longrightarrow> setup_failure ev = snd (fst (setupEnv E w))"
    unfolding stretch_def by blast
  with assms(2) show ?thesis by simp
qed

lemma setup_error_has_cause:
  assumes "snd (fst (setupEnv E w)) = Some e"
  shows "\<exists>ev \<in> set (events_since w (snd (setupEnv E w))). setup_failure ev = Some e"
proof -
  have "stretch (events_since w (snd (setupEnv E w))) (Some e)"
    using setupEnv_since(3) [where E = E and w = w] by (simp only: assms)
  then have "Some e \<in> setup_failure ` set (events_since w (snd (setupEnv E w)))"
    unfolding stretch_def by blast
  then obtain ev where "ev \<in> set (events_since w (snd (setupEnv E w)))" "Some e = setup_failure ev"
    by (rule imageE)
  then show ?thesis by (intro bexI [of _ ev]) simp_all
qed

text \<open>The events of \<open>NewPGLite\<close> are those of its \<open>setupEnv\<close> and then the rest.\<close>

lemma NewPGLite_events:
  assumes "trace (snd (NewPGLite E c so se rtc w)) = trace (snd (setupEnv E w)) @ tail"
  shows "events_since w (snd (NewPGLite E c so se rtc w)) = events_since w (snd (setupEnv E w)) @ tail"
proof -
  have "trace (snd (NewPGLite E c so se rtc w)) = (trace w @ events_since w (snd (setupEnv E w))) @ tail"
    using assms by (simp only: setupEnv_since(1) [where E = E and w = w, symmetric])
  then have "trace (snd (NewPGLite E c so se rtc w)) = trace w @ (events_since w (snd (setupEnv E w)) @ tail)"
    by (simp only: append_assoc)
  then show ?thesis by (rule events_since_append)
qed

lemma Unwrap_setupEnv: "Unwrap (Errorf ''setupEnv: %w'' [ArgErr e]) = Some e"
  by simp

text \<open>
  C6: whenever a library call of the environment setup fails during \<open>NewPGLite\<close> (the gzip
  reader, \<open>tr.Next()\<close>, a directory, file or symlink creation, the copy of a file's contents,
  \<open>rand.Read\<close>, the read of the WebAssembly binary) or a header of unknown type is met,
  \<open>NewPGLite\<close> returns a nil \<open>PGLite\<close> and the error \<open>fmt.Errorf("setupEnv: %w", e)\<close>, which
  wraps the failure \<open>e\<close>; and every error of \<open>setupEnv\<close> is such a failure.
\<close>

theorem setup_failure_is_wrapped:
  "(\<forall>ev \<in> set (events_since w (snd (NewPGLite E c so se rtc w))). \<forall>e. setup_failure ev = Some e \<longrightarrow>
       fst (NewPGLite E c so se rtc w) = Returned (None, Some (Errorf ''setupEnv: %w'' [ArgErr e]))
       \<and> Unwrap (Errorf ''setupEnv: %w'' [ArgErr e]) = Some e)
   \<and> (\<forall>e. snd (fst (setupEnv E w)) = Some e \<longrightarrow>
        (\<exists>ev \<in> set (events_since w (snd (setupEnv E w))). setup_failure ev = Some e)
        \<and> NewPGLite E c so se rtc w =
            (Returned (None, Some (Errorf ''setupEnv: %w'' [ArgErr e])), snd (setupEnv E w)))"
proof (intro conjI ballI allI impI)
  fix ev e
  assume ev: "ev \<in> set (events_since w (snd (NewPGLite E c so se rtc w)))"
    and f: "setup_failure ev = Some e"
  have "ev \<in> set (events_since w (snd (setupEnv E w)))"
  proof (cases rule: NewPGLite_runs [of E w c so se rtc])
    case (setup_failed e')
    then have "trace (snd (NewPGLite E c so se rtc w)) = trace (snd (setupEnv E w)) @ []" by simp
    from NewPGLite_events [OF this] ev show ?thesis by simp
  next
    case (wasi_panic rc r e')
    from NewPGLite_events [OF wasi_panic(3)] ev f show ?thesis by auto
  next
    case (stopped rc r mo ierr err)
    from NewPGLite_events [OF stopped(4)] ev f show ?thesis by auto
  next
    case (no_initdb rc r mo ierr)
    from NewPGLite_events [OF no_initdb(5)] ev f show ?thesis by auto
  next
    case (initdb_failed rc r m ierr mem rv e')
    from NewPGLite_events [OF initdb_failed(5)] ev f show ?thesis by auto
  next
    case (no_stderr rc r m ierr mem rv)
    from NewPGLite_events [OF no_stderr(6)] ev f show ?thesis by auto
  next
    case (no_socketfile rc r m ierr mem rv wr)
    from NewPGLite_events [OF no_socketfile(6)] ev f show ?thesis by auto
  next
    case (socketfile_failed rc r m ierr mem rv wr mem2 rv2 e')
    from NewPGLite_events [OF socketfile_failed(5)] ev f show ?thesis by auto
  next
    case (ready rc r m ierr mem rv wr mem2 rv2)
    from NewPGLite_events [OF ready(5)] ev f show ?thesis by auto
  qed
  from setup_failure_in_run [OF this f] have "snd (fst (setupEnv E w)) = Some e" .
  from NewPGLite_setup_failed [OF this]
  show "fst (NewPGLite E c so se rtc w) = Returned (None, Some (Errorf ''setupEnv: %w'' [ArgErr e]))"
    by simp
  show "Unwrap (Errorf ''setupEnv: %w'' [ArgErr e]) = Some e"
    by (rule Unwrap_setupEnv)
next
  fix e
  assume "snd (fst (setupEnv E w)) = Some e"
  then show "\<exists>ev \<in> set (events_since w (snd (setupEnv E w))). setup_failure ev = Some e"
    by (rule setup_error_has_cause)
next
  fix e
  assume "snd (fst (setupEnv E w)) = Some e"
  then show "NewPGLite E c so se rtc w =
      (Returned (None, Some (Errorf ''setupEnv: %w'' [ArgErr e])), snd (setupEnv E w))"
    by (rule NewPGLite_setup_failed)
qed

theorem setup_failure_is_wrapped_witness:
  "EGzipNewReader (Some (LibError ''gzip: invalid header''))
     \<in> set (events_since (demo_world 0)
          (snd (NewPGLite broken_env (Context 0) (Some Stdout) (Some Stderr) [] (demo_world 0))))
   \<and> setup_failure (EGzipNewReader (Some (LibError ''gzip: invalid header'')))
       = Some (LibError ''gzip: invalid header'')
   \<and> snd (fst (setupEnv broken_env (demo_world 0))) = Some (LibError ''gzip: invalid header'')
   \<and> fst (NewPGLite broken_env (Context 0) (Some Stdout) (Some Stderr) [] (demo_world 0))
       = Returned (None, Some (Errorf ''setupEnv: %w'' [ArgErr (LibError ''gzip: invalid header'')]))
   \<and> Unwrap (Errorf ''setupEnv: %w'' [ArgErr (LibError ''gzip: invalid header'')])
       = Some (LibError ''gzip: invalid header'')"
proof -
  have a: "EGzipNewReader (Some (LibError ''gzip: invalid header''))
     \<in> set (events_since (demo_world 0)
          (snd (NewPGLite broken_env (Context 0) (Some Stdout) (Some Stderr) [] (demo_world 0))))"
    by code_simp
  have b: "snd (fst (setupEnv broken_env (demo_world 0))) = Some (LibError ''gzip: invalid header'')"
    by code_simp
  from setup_failure_is_wrapped [of "demo_world 0" broken_env "Context 0" "Some Stdout" "Some Stderr" "[]"]
    a b
  show ?thesis by simp
qed

lemma instantiate_failure_simps [simp]:
  "instantiate_failure None = None"
  "instantiate_failure (Some (ExitError cd)) =
     (if cd \<noteq> 0 then Some (Errorf ''wasm exit_code: %d'' [ArgUint32 cd]) else None)"
  "instantiate_failure (Some (LibError s)) = Some (Errorf ''instantiate: %w'' [ArgErr (LibError s)])"
  "instantiate_failure (Some (Errorf f args)) = Some (Errorf ''instantiate: %w'' [ArgErr (Errorf f args)])"
  by (simp_all add: instantiate_failure_def)

lemma not_setup_event_in_run:
  assumes "ev \<in> set (events_since w (snd (NewPGLite E c so se rtc w)))" "\<not> setup_event ev"
    and "trace (snd (NewPGLite E c so se rtc w)) = trace (snd (setupEnv E w)) @ tail"
  shows "ev \<in> set tail"
proof -
  from NewPGLite_events [OF assms(3)] assms(1)
  have "ev \<in> set (events_since w (snd (setupEnv E w))) \<or> ev \<in> set tail" by simp
  with assms(2) setup_events_only show ?thesis by blast
qed

text \<open>
Claim C2. Failures of the embedded binary are surfaced as errors. For every run of
\<open>NewPGLite\<close>: if \<open>InstantiateWithConfig\<close> returned a \<open>sys.ExitError\<close> with a non-zero exit code
\<open>cd\<close>, then \<open>NewPGLite\<close> returns a nil \<open>PGLite\<close> with the error made by
\<open>fmt.Errorf("wasm exit_code: %d", cd)\<close>, and the run ends with the creation of the runtime,
the WASI instantiation, that instantiation and the close of that same runtime. If a call of an
exported function returned an error \<open>e\<close>, the function is \<open>pg_initdb\<close> or
\<open>use_socketfile\<close> and \<open>NewPGLite\<close> returns a nil \<open>PGLite\<close> with the error that wraps
\<open>e\<close> under the function's name. For every run of \<open>Query\<close>: if a call of an exported
function returned an error \<open>e\<close>, the function is \<open>interactive_one\<close> and \<open>Query\<close>
returns \<open>e\<close>.
\<close>

theorem failures_are_surfaced:
  "(\<forall>blob cfg mo cd. cd \<noteq> 0 \<and> EInstantiate blob cfg mo (Some (ExitError cd))
         \<in> set (events_since w (snd (NewPGLite E c so se rtc w))) \<longrightarrow>
       fst (NewPGLite E c so se rtc w) = Returned (None, Some (Errorf ''wasm exit_code: %d'' [ArgUint32 cd]))
       \<and> (\<exists>pre rc r. events_since w (snd (NewPGLite E c so se rtc w)) =
             pre @ [ENewRuntime rc r, EWasiInstantiate None,
                    EInstantiate blob cfg mo (Some (ExitError cd)), ERuntimeClose r]))
   \<and> (\<forall>m name mem rv e. ECall m name mem rv (Some e)
         \<in> set (events_since w (snd (NewPGLite E c so se rtc w))) \<longrightarrow>
       (name = ''pg_initdb'' \<or> name = ''use_socketfile'')
       \<and> fst (NewPGLite E c so se rtc w) = Returned (None, Some (Errorf (name @ '': %w'') [ArgErr e]))
       \<and> Unwrap (Errorf (name @ '': %w'') [ArgErr e]) = Some e)
   \<and> (\<forall>m name mem rv e. ECall m name mem rv (Some e)
         \<in> set (events_since w (snd (Query E p sql w))) \<longrightarrow>
       name = ''interactive_one'' \<and> fst (Query E p sql w) = Returned (Some e))"
proof (intro conjI allI impI)
  fix blob cfg mo cd
  let ?I = "EInstantiate blob cfg mo (Some (ExitError cd))"
  assume a: "cd \<noteq> 0 \<and> ?I \<in> set (events_since w (snd (NewPGLite E c so se rtc w)))"
  then have cd: "cd \<noteq> 0" and I: "?I \<in> set (events_since w (snd (NewPGLite E c so se rtc w)))"
    by simp_all
  have ns: "\<not> setup_event ?I" by simp
  have "fst (NewPGLite E c so se rtc w) = Returned (None, Some (Errorf ''wasm exit_code: %d'' [ArgUint32 cd]))
       \<and> (\<exists>pre rc r. events_since w (snd (NewPGLite E c so se rtc w)) =
             pre @ [ENewRuntime rc r, EWasiInstantiate None, ?I, ERuntimeClose r])"
  proof (cases rule: NewPGLite_runs [of E w c so se rtc])
    case (setup_failed e')
    then have "trace (snd (NewPGLite E c so se rtc w)) = trace (snd (setupEnv E w)) @ []" by simp
    from not_setup_event_in_run [OF I ns this] show ?thesis by simp
  next
    case (wasi_panic rc r e')
    from not_setup_event_in_run [OF I ns wasi_panic(3)] show ?thesis by simp
  next
    case (stopped rc r mo' ierr err)
    from not_setup_event_in_run [OF I ns stopped(4)]
    have eq: "blob = fst (fst (setupEnv E w))" "cfg = instantiate_config so se" "mo' = mo"
      "ierr = Some (ExitError cd)" by simp_all
    with stopped(2) cd have "err = Errorf ''wasm exit_code: %d'' [ArgUint32 cd]" by simp
    with stopped(3) have 1: "fst (NewPGLite E c so se rtc w) =
        Returned (None, Some (Errorf ''wasm exit_code: %d'' [ArgUint32 cd]))" by simp
    from NewPGLite_events [OF stopped(4)] eq
    have 2: "events_since w (snd (NewPGLite E c so se rtc w)) =
        events_since w (snd (setupEnv E w)) @ [ENewRuntime rc r, EWasiInstantiate None, ?I, ERuntimeClose r]"
      by simp
    from 1 2 show ?thesis by blast
  next
    case (no_initdb rc r mo' ierr)
    from not_setup_event_in_run [OF I ns no_initdb(5)] no_initdb(2) cd show ?thesis by clarsimp
  next
    case (initdb_failed rc r m ierr mem rv e')
    from not_setup_event_in_run [OF I ns initdb_failed(5)] initdb_failed(2) cd show ?thesis by clarsimp
  next
    case (no_stderr rc r m ierr mem rv)
    from not_setup_event_in_run [OF I ns no_stderr(6)] no_stderr(2) cd show ?thesis by clarsimp
  next
    case (no_socketfile rc r m ierr mem rv wr)
    from not_setup_event_in_run [OF I ns no_socketfile(6)] no_socketfile(2) cd show ?thesis by clarsimp
  next
    case (socketfile_failed rc r m ierr mem rv wr mem2 rv2 e')
    from not_setup_event_in_run [OF I ns socketfile_failed(5)] socketfile_failed(2) cd
    show ?thesis by clarsimp
  next
    case (ready rc r m ierr mem rv wr mem2 rv2)
    from not_setup_event_in_run [OF I ns ready(5)] ready(2) cd show ?thesis by clarsimp
  qed
  then show "fst (NewPGLite E c so se rtc w) = Returned (None, Some (Errorf ''wasm exit_code: %d'' [ArgUint32 cd]))"
    and "\<exists>pre rc r. events_since w (snd (NewPGLite E c so se rtc w)) =
             pre @ [ENewRuntime rc r, EWasiInstantiate None, ?I, ERuntimeClose r]"
    by simp_all
next
  fix m name mem rv e
  let ?C = "ECall m name mem rv (Some e)"
  assume C: "?C \<in> set (events_since w (snd (NewPGLite E c so se rtc w)))"
  have ns: "\<not> setup_event ?C" by simp
  have "(name = ''pg_initdb'' \<or> name = ''use_socketfile'')
       \<and> fst (NewPGLite E c so se rtc w) = Returned (None, Some (Errorf (name @ '': %w'') [ArgErr e]))"
  proof (cases rule: NewPGLite_runs [of E w c so se rtc])
    case (setup_failed e')
    then have "trace (snd (NewPGLite E c so se rtc w)) = trace (snd (setupEnv E w)) @ []" by simp
    from not_setup_event_in_run [OF C ns this] show ?thesis by simp
  next
    case (wasi_panic rc r e')
    from not_setup_event_in_run [OF C ns wasi_panic(3)] show ?thesis by simp
  next
    case (stopped rc r mo' ierr err)
    from not_setup_event_in_run [OF C ns stopped(4)] show ?thesis by simp
  next
    case (no_initdb rc r mo' ierr)
    from not_setup_event_in_run [OF C ns no_initdb(5)] show ?thesis by simp
  next
    case (initdb_failed rc r m' ierr mem' rv' e')
    from not_setup_event_in_run [OF C ns initdb_failed(5)] initdb_failed(4) show ?thesis by simp
  next
    case (no_stderr rc r m' ierr mem' rv')
    from not_setup_event_in_run [OF C ns no_stderr(6)] show ?thesis by simp
  next
    case (no_socketfile rc r m' ierr mem' rv' wr)
    from not_setup_event_in_run [OF C ns no_socketfile(6)] show ?thesis by simp
  next
    case (socketfile_failed rc r m' ierr mem' rv' wr mem2 rv2 e')
    from not_setup_event_in_run [OF C ns socketfile_failed(5)] socketfile_failed(4)
    show ?thesis by simp
  next
    case (ready rc r m' ierr mem' rv' wr mem2 rv2)
    from not_setup_event_in_run [OF C ns ready(5)] show ?thesis by simp
  qed
  then show "name = ''pg_initdb'' \<or> name = ''use_socketfile''"
    and "fst (NewPGLite E c so se rtc w) = Returned (None, Some (Errorf (name @ '': %w'') [ArgErr e]))"
    by simp_all
  from \<open>name = ''pg_initdb'' \<or> name = ''use_socketfile''\<close>
  show "Unwrap (Errorf (name @ '': %w'') [ArgErr e]) = Some e"
    by auto
next
  fix m name mem rv e
  assume C: "ECall m name mem rv (Some e) \<in> set (events_since w (snd (Query E p sql w)))"
  have "name = ''interactive_one'' \<and> fst (Query E p sql w) = Returned (Some e)"
  proof (cases "mod' p")
    case None
    with C show ?thesis by (simp add: Query_no_module)
  next
    case (Some m')
    show ?thesis
    proof (cases "memories w m'")
      case None
      with Some C show ?thesis by (simp add: Query_no_memory)
    next
      case (Some buf)
      note mem = this
      show ?thesis
      proof (cases "ExportedFunction E m' ''interactive_one''")
        case True
        from C show ?thesis
          by (auto simp: Query_run [OF \<open>mod' p = Some m'\<close> mem True] events_since_def)
      next
        case False
        from C show ?thesis
          by (simp add: Query_not_exported [OF \<open>mod' p = Some m'\<close> mem False] events_since_def)
      qed
    qed
  qed
  then show "name = ''interactive_one''" and "fst (Query E p sql w) = Returned (Some e)"
    by simp_all
qed

theorem failures_are_surfaced_witness:
  "EInstantiate [0, 0x61, 0x73, 0x6D] (instantiate_config (Some Stdout) (Some Stderr)) (Some 0)
       (Some (ExitError 3))
     \<in> set (events_since (demo_world 0)
          (snd (NewPGLite (exiting_env 3) (Context 0) (Some Stdout) (Some Stderr) [] (demo_world 0))))
   \<and> fst (NewPGLite (exiting_env 3) (Context 0) (Some Stdout) (Some Stderr) [] (demo_world 0))
       = Returned (None, Some (Errorf ''wasm exit_code: %d'' [ArgUint32 3]))
   \<and> ECall 0 ''use_socketfile'' (Some (replicate 8 0)) [] (Some (LibError ''wasm error: unreachable''))
     \<in> set (events_since (demo_world 0)
          (snd (NewPGLite (crashing_env ''use_socketfile'') (Context 0) (Some Stdout) (Some Stderr) []
             (demo_world 0))))
   \<and> fst (NewPGLite (crashing_env ''use_socketfile'') (Context 0) (Some Stdout) (Some Stderr) []
             (demo_world 0))
       = Returned (None, Some (Errorf ''use_socketfile: %w'' [ArgErr (LibError ''wasm error: unreachable'')]))
   \<and> ECall 0 ''interactive_one'' (Some [0xFF, 0x61, 0x62, 0x63, 0, 0xFF, 0xFF, 0xFF]) []
       (Some (LibError ''wasm error: unreachable''))
     \<in> set (events_since (demo_world 8) (snd (Query (crashing_env ''interactive_one'') demo_pg ''abc'' (demo_world 8))))
   \<and> fst (Query (crashing_env ''interactive_one'') demo_pg ''abc'' (demo_world 8))
       = Returned (Some (LibError ''wasm error: unreachable''))"
proof -
  have a: "(3::32 word) \<noteq> 0 \<and>
     EInstantiate [0, 0x61, 0x73, 0x6D] (instantiate_config (Some Stdout) (Some Stderr)) (Some 0)
       (Some (ExitError 3))
     \<in> set (events_since (demo_world 0)
          (snd (NewPGLite (exiting_env 3) (Context 0) (Some Stdout) (Some Stderr) [] (demo_world 0))))"
    by code_simp
  have b: "ECall 0 ''use_socketfile'' (Some (replicate 8 0)) [] (Some (LibError ''wasm error: unreachable''))
     \<in> set (events_since (demo_world 0)
          (snd (NewPGLite (crashing_env ''use_socketfile'') (Context 0) (Some Stdout) (Some Stderr) []
             (demo_world 0))))"
    by code_simp
  have c: "ECall 0 ''interactive_one'' (Some [0xFF, 0x61, 0x62, 0x63, 0, 0xFF, 0xFF, 0xFF]) []
       (Some (LibError ''wasm error: unreachable''))
     \<in> set (events_since (demo_world 8) (snd (Query (crashing_env ''interactive_one'') demo_pg ''abc'' (demo_world 8))))"
    by code_simp
  from failures_are_surfaced [of "demo_world 0" "exiting_env 3" "Context 0" "Some Stdout" "Some Stderr" "[]"
      demo_pg "[]"] a
  have 1: "fst (NewPGLite (exiting_env 3) (Context 0) (Some Stdout) (Some Stderr) [] (demo_world 0))
       = Returned (None, Some (Errorf ''wasm exit_code: %d'' [ArgUint32 3]))"
    by blast
  from failures_are_surfaced [of "demo_world 0" "crashing_env ''use_socketfile''" "Context 0" "Some Stdout"
      "Some Stderr" "[]" demo_pg "[]"] b
  have 2: "fst (NewPGLite (crashing_env ''use_socketfile'') (Context 0) (Some Stdout) (Some Stderr) []
             (demo_world 0))
       = Returned (None, Some (Errorf (''use_socketfile'' @ '': %w'') [ArgErr (LibError ''wasm error: unreachable'')]))"
    by blast
  from failures_are_surfaced [of "demo_world 8" "crashing_env ''interactive_one''" "Context 0" "Some Stdout"
      "Some Stderr" "[]" demo_pg "''abc''"] c
  have 3: "fst (Query (crashing_env ''interactive_one'') demo_pg ''abc'' (demo_world 8))
       = Returned (Some (LibError ''wasm error: unreachable''))"
    by blast
  from a b c 1 2 3 show ?thesis by simp
qed

text \<open>
Claim C10. An exit with code zero is not treated as a failure. If
\<open>InstantiateWithConfig\<close> returned a \<open>sys.ExitError\<close> with exit code 0 together with the
module handle \<open>mo\<close>, then the next step of \<open>NewPGLite\<close> is not the close of a runtime and
not a return: it is the call of \<open>pg_initdb\<close> on \<open>mo\<close>. When \<open>mo\<close> is nil or does not
export \<open>pg_initdb\<close>, that call is the nil dereference with which Go panics, and no further
library call is made.
\<close>

theorem exit_code_zero_goes_on:
  "EInstantiate blob cfg mo (Some (ExitError 0))
       \<in> set (events_since w (snd (NewPGLite E c so se rtc w))) \<longrightarrow>
     (\<exists>pre post. events_since w (snd (NewPGLite E c so se rtc w)) =
          pre @ EInstantiate blob cfg mo (Some (ExitError 0)) # post
        \<and> (\<forall>r'. ERuntimeClose r' \<notin> set (take 1 post))
        \<and> (case mo of
             None \<Rightarrow> post = [] \<and> fst (NewPGLite E c so se rtc w) = Panicked
           | Some m \<Rightarrow>
               if ExportedFunction E m ''pg_initdb''
               then \<exists>mem rv err rest. post = ECall m ''pg_initdb'' mem rv err # rest
               else post = [] \<and> fst (NewPGLite E c so se rtc w) = Panicked))"
proof
  let ?I = "EInstantiate blob cfg mo (Some (ExitError 0))"
  assume I: "?I \<in> set (events_since w (snd (NewPGLite E c so se rtc w)))"
  have ns: "\<not> setup_event ?I" by simp
  show "\<exists>pre post. events_since w (snd (NewPGLite E c so se rtc w)) = pre @ ?I # post
        \<and> (\<forall>r'. ERuntimeClose r' \<notin> set (take 1 post))
        \<and> (case mo of
             None \<Rightarrow> post = [] \<and> fst (NewPGLite E c so se rtc w) = Panicked
           | Some m \<Rightarrow>
               if ExportedFunction E m ''pg_initdb''
               then \<exists>mem rv err rest. post = ECall m ''pg_initdb'' mem rv err # rest
               else post = [] \<and> fst (NewPGLite E c so se rtc w) = Panicked)"
  proof (cases rule: NewPGLite_runs [of E w c so se rtc])
    case (setup_failed e')
    then have "trace (snd (NewPGLite E c so se rtc w)) = trace (snd (setupEnv E w)) @ []" by simp
    from not_setup_event_in_run [OF I ns this] show ?thesis by simp
  next
    case (wasi_panic rc r e')
    from not_setup_event_in_run [OF I ns wasi_panic(3)] show ?thesis by simp
  next
    case (stopped rc r mo' ierr err)
    from not_setup_event_in_run [OF I ns stopped(4)] stopped(2) show ?thesis by clarsimp
  next
    case (no_initdb rc r mo' ierr)
    from not_setup_event_in_run [OF I ns no_initdb(5)]
    have eq: "blob = fst (fst (setupEnv E w))" "cfg = instantiate_config so se" "mo' = mo"
      "ierr = Some (ExitError 0)" by auto
    from NewPGLite_events [OF no_initdb(5)] eq
    have "events_since w (snd (NewPGLite E c so se rtc w)) =
        (events_since w (snd (setupEnv E w)) @ [ENewRuntime rc r, EWasiInstantiate None]) @ ?I # []"
      by simp
    with no_initdb(3) eq(3) no_initdb(4) show ?thesis
      by (intro exI [where x = "events_since w (snd (setupEnv E w)) @ [ENewRuntime rc r, EWasiInstantiate None]"]
            exI [where x = "[]"]) auto
  next
    case (initdb_failed rc r m ierr mem rv e')
    from not_setup_event_in_run [OF I ns initdb_failed(5)]
    have eq: "blob = fst (fst (setupEnv E w))" "cfg = instantiate_config so se" "mo = Some m"
      "ierr = Some (ExitError 0)" by auto
    from NewPGLite_events [OF initdb_failed(5)] eq
    have "events_since w (snd (NewPGLite E c so se rtc w)) =
        (events_since w (snd (setupEnv E w)) @ [ENewRuntime rc r, EWasiInstantiate None]) @ ?I #
          (ECall m ''pg_initdb'' mem rv (Some e') # [ERuntimeClose r])"
      by simp
    with initdb_failed(3) eq(3) show ?thesis
      by (intro exI [where x = "events_since w (snd (setupEnv E w)) @ [ENewRuntime rc r, EWasiInstantiate None]"]
            exI [where x = "ECall m ''pg_initdb'' mem rv (Some e') # [ERuntimeClose r]"]) simp
  next
    case (no_stderr rc r m ierr mem rv)
    from not_setup_event_in_run [OF I ns no_stderr(6)]
    have eq: "blob = fst (fst (setupEnv E w))" "cfg = instantiate_config so se" "mo = Some m"
      "ierr = Some (ExitError 0)" by auto
    from NewPGLite_events [OF no_stderr(6)] eq
    have "events_since w (snd (NewPGLite E c so se rtc w)) =
        (events_since w (snd (setupEnv E w)) @ [ENewRuntime rc r, EWasiInstantiate None]) @ ?I #
          (ECall m ''pg_initdb'' mem rv None # [])"
      by simp
    with no_stderr(3) eq(3) show ?thesis
      by (intro exI [where x = "events_since w (snd (setupEnv E w)) @ [ENewRuntime rc r, EWasiInstantiate None]"]
            exI [where x = "ECall m ''pg_initdb'' mem rv None # []"]) simp
  next
    case (no_socketfile rc r m ierr mem rv wr)
    from not_setup_event_in_run [OF I ns no_socketfile(6)]
    have eq: "blob = fst (fst (setupEnv E w))" "cfg = instantiate_config so se" "mo = Some m"
      "ierr = Some (ExitError 0)" by auto
    from NewPGLite_events [OF no_socketfile(6)] eq
    have "events_since w (snd (NewPGLite E c so se rtc w)) =
        (events_since w (snd (setupEnv E w)) @ [ENewRuntime rc r, EWasiInstantiate None]) @ ?I #
          (ECall m ''pg_initdb'' mem rv None # [EFprintf wr ''initdb returned: %b\<newline>'' [ArgUint64s rv]])"
      by simp
    with no_socketfile(3) eq(3) show ?thesis
      by (intro exI [where x = "events_since w (snd (setupEnv E w)) @ [ENewRuntime rc r, EWasiInstantiate None]"]
            exI [where x = "ECall m ''pg_initdb'' mem rv None # [EFprintf wr ''initdb returned: %b\<newline>'' [ArgUint64s rv]]"]) simp
  next
    case (socketfile_failed rc r m ierr mem rv wr mem2 rv2 e')
    from not_setup_event_in_run [OF I ns socketfile_failed(5)]
    have eq: "blob = fst (fst (setupEnv E w))" "cfg = instantiate_config so se" "mo = Some m"
      "ierr = Some (ExitError 0)" by auto
    from NewPGLite_events [OF socketfile_failed(5)] eq
    have "events_since w (snd (NewPGLite E c so se rtc w)) =
        (events_since w (snd (setupEnv E w)) @ [ENewRuntime rc r, EWasiInstantiate None]) @ ?I #
          (ECall m ''pg_initdb'' mem rv None # [EFprintf wr ''initdb returned: %b\<newline>'' [ArgUint64s rv], ECall m ''use_socketfile'' mem2 rv2 (Some e'), ERuntimeClose r])"
      by simp
    with socketfile_failed(3) eq(3) show ?thesis
      by (intro exI [where x = "events_since w (snd (setupEnv E w)) @ [ENewRuntime rc r, EWasiInstantiate None]"]
            exI [where x = "ECall m ''pg_initdb'' mem rv None # [EFprintf wr ''initdb returned: %b\<newline>'' [ArgUint64s rv], ECall m ''use_socketfile'' mem2 rv2 (Some e'), ERuntimeClose r]"]) simp
  next
    case (ready rc r m ierr mem rv wr mem2 rv2)
    from not_setup_event_in_run [OF I ns ready(5)]
    have eq: "blob = fst (fst (setupEnv E w))" "cfg = instantiate_config so se" "mo = Some m"
      "ierr = Some (ExitError 0)" by auto
    from NewPGLite_events [OF ready(5)] eq
    have "events_since w (snd (NewPGLite E c so se rtc w)) =
        (events_since w (snd (setupEnv E w)) @ [ENewRuntime rc r, EWasiInstantiate None]) @ ?I #
          (ECall m ''pg_initdb'' mem rv None # [EFprintf wr ''initdb returned: %b\<newline>'' [ArgUint64s rv], ECall m ''use_socketfile'' mem2 rv2 None])"
      by simp
    with ready(3) eq(3) show ?thesis
      by (intro exI [where x = "events_since w (snd (setupEnv E w)) @ [ENewRuntime rc r, EWasiInstantiate None]"]
            exI [where x = "ECall m ''pg_initdb'' mem rv None # [EFprintf wr ''initdb returned: %b\<newline>'' [ArgUint64s rv], ECall m ''use_socketfile'' mem2 rv2 None]"]) simp
  qed
qed

theorem exit_code_zero_goes_on_witness:
  "EInstantiate [0, 0x61, 0x73, 0x6D] (instantiate_config (Some Stdout) (Some Stderr)) (Some 0)
       (Some (ExitError 0))
     \<in> set (events_since (demo_world 0)
          (snd (NewPGLite (exiting_env 0) (Context 0) (Some Stdout) (Some Stderr) [] (demo_world 0))))
   \<and> (\<exists>pre post. events_since (demo_world 0)
          (snd (NewPGLite (exiting_env 0) (Context 0) (Some Stdout) (Some Stderr) [] (demo_world 0))) =
          pre @ EInstantiate [0, 0x61, 0x73, 0x6D] (instantiate_config (Some Stdout) (Some Stderr)) (Some 0)
                  (Some (ExitError 0)) # post
        \<and> (\<forall>r'. ERuntimeClose r' \<notin> set (take 1 post))
        \<and> (\<exists>mem rv err rest. post = ECall 0 ''pg_initdb'' mem rv err # rest))"
proof -
  have a: "EInstantiate [0, 0x61, 0x73, 0x6D] (instantiate_config (Some Stdout) (Some Stderr)) (Some 0)
       (Some (ExitError 0))
     \<in> set (events_since (demo_world 0)
          (snd (NewPGLite (exiting_env 0) (Context 0) (Some Stdout) (Some Stderr) [] (demo_world 0))))"
    by code_simp
  have b: "ExportedFunction (exiting_env 0) 0 ''pg_initdb''"
    by (simp add: exiting_env_def demo_env_def)
  from exit_code_zero_goes_on [of "[0, 0x61, 0x73, 0x6D]" "instantiate_config (Some Stdout) (Some Stderr)"
      "Some 0" "demo_world 0" "exiting_env 0" "Context 0" "Some Stdout" "Some Stderr" "[]"] a b
  show ?thesis by simp
qed

end
